theory Spec2Isabelle
  imports Complex_Main
begin

section \<open>JavaScript values at the record-store boundary\<close>

text \<open>
  The persisted record arrives as \<^verbatim>\<open>response.data.value as any\<close>: its properties are
  arbitrary values of the store's data model (null, booleans, integers, strings, arrays,
  objects), and a missing property reads as \<^verbatim>\<open>undefined\<close>.
\<close>

datatype jsval =
    JUndefined
  | JNull
  | JBool bool
  | JNum int
  | JStr string
  | JArr "jsval list"
  | JObj "(string \<times> jsval) list"

text \<open>JavaScript truthiness: \<^verbatim>\<open>undefined\<close>, \<^verbatim>\<open>null\<close>, \<^verbatim>\<open>false\<close>, \<^verbatim>\<open>0\<close> and \<^verbatim>\<open>""\<close> are falsy.\<close>

fun truthy :: "jsval \<Rightarrow> bool" where
  "truthy JUndefined = False"
| "truthy JNull = False"
| "truthy (JBool b) = b"
| "truthy (JNum n) = (n \<noteq> 0)"
| "truthy (JStr s) = (s \<noteq> [])"
| "truthy (JArr xs) = True"
| "truthy (JObj kvs) = True"

text \<open>\<^verbatim>\<open>a || b\<close> yields \<^verbatim>\<open>a\<close> when it is truthy, otherwise \<^verbatim>\<open>b\<close>.\<close>

definition js_or :: "jsval \<Rightarrow> jsval \<Rightarrow> jsval" where
  "js_or a b = (if truthy a then a else b)"

text \<open>\<^verbatim>\<open>a ?? b\<close> yields \<^verbatim>\<open>b\<close> only when \<^verbatim>\<open>a\<close> is \<^verbatim>\<open>null\<close> or \<^verbatim>\<open>undefined\<close>.\<close>

definition js_nullish :: "jsval \<Rightarrow> jsval \<Rightarrow> jsval" where
  "js_nullish a b = (if a = JUndefined \<or> a = JNull then b else a)"

type_synonym js_object = "string \<rightharpoonup> jsval"

text \<open>Property read \<^verbatim>\<open>record.key\<close>: an absent property is \<^verbatim>\<open>undefined\<close>.\<close>

definition getProp :: "js_object \<Rightarrow> string \<Rightarrow> jsval" where
  "getProp obj k = (case obj k of None \<Rightarrow> JUndefined | Some v \<Rightarrow> v)"

section \<open>Avatar configuration\<close>

text \<open>
  \<^verbatim>\<open>interface AvatarConfig\<close>. The TypeScript types are erased at run time and the
  loader assigns properties of an \<^verbatim>\<open>any\<close> value, so each field holds a JavaScript value.
\<close>

record AvatarConfig =
  headShape :: jsval
  headColor :: jsval
  hairStyle :: jsval
  hairColor :: jsval
  eyeStyle :: jsval
  eyeColor :: jsval
  eyebrowStyle :: jsval
  noseStyle :: jsval
  mouthStyle :: jsval
  hasBlush :: jsval

text \<open>The initial value of \<^verbatim>\<open>currentConfig\<close> (and of \<^verbatim>\<open>playerAvatar\<close>).\<close>

definition defaultConfig :: AvatarConfig where
  "defaultConfig = \<lparr>
     headShape = JStr ''round'',
     headColor = JStr ''#ffccaa'',
     hairStyle = JStr ''short'',
     hairColor = JStr ''#4a3728'',
     eyeStyle = JStr ''dots'',
     eyeColor = JStr ''#333333'',
     eyebrowStyle = JStr ''normal'',
     noseStyle = JStr ''small'',
     mouthStyle = JStr ''smile'',
     hasBlush = JBool True \<rparr>"

subsection \<open>The declared domains of the fields\<close>

definition headShapes :: "string list" where
  "headShapes = [''round'', ''oval'', ''square'']"

definition hairStyles :: "string list" where
  "hairStyles = [''none'', ''short'', ''spiky'', ''bob'', ''ponytail'']"

definition eyeStyles :: "string list" where
  "eyeStyles = [''dots'', ''wide'', ''sleepy'', ''sparkle'']"

definition eyebrowStyles :: "string list" where
  "eyebrowStyles = [''none'', ''normal'', ''angry'', ''worried'', ''thick'']"

definition noseStyles :: "string list" where
  "noseStyles = [''none'', ''small'', ''round'', ''pointed'']"

definition mouthStyles :: "string list" where
  "mouthStyles = [''smile'', ''neutral'', ''open'', ''cat'', ''surprised'']"

definition is_style :: "string list \<Rightarrow> jsval \<Rightarrow> bool" where
  "is_style styles v = (case v of JStr s \<Rightarrow> s \<in> set styles | _ \<Rightarrow> False)"

definition hex_digit :: "char \<Rightarrow> bool" where
  "hex_digit c = (c \<in> set ''0123456789abcdefABCDEF'')"

text \<open>A hex colour string: \<^verbatim>\<open>#\<close> followed by at least one hexadecimal digit.\<close>

definition is_hex_color :: "jsval \<Rightarrow> bool" where
  "is_hex_color v =
     (case v of
        JStr s \<Rightarrow> (case s of [] \<Rightarrow> False
                   | c # ds \<Rightarrow> c = CHR ''#'' \<and> ds \<noteq> [] \<and> list_all hex_digit ds)
      | _ \<Rightarrow> False)"

definition is_boolean :: "jsval \<Rightarrow> bool" where
  "is_boolean v = (case v of JBool b \<Rightarrow> True | _ \<Rightarrow> False)"

text \<open>Every field holds a value of its declared domain.\<close>

definition in_domain :: "AvatarConfig \<Rightarrow> bool" where
  "in_domain c =
     (is_style headShapes (headShape c) \<and> is_hex_color (headColor c) \<and>
      is_style hairStyles (hairStyle c) \<and> is_hex_color (hairColor c) \<and>
      is_style eyeStyles (eyeStyle c) \<and> is_hex_color (eyeColor c) \<and>
      is_style eyebrowStyles (eyebrowStyle c) \<and>
      is_style noseStyles (noseStyle c) \<and>
      is_style mouthStyles (mouthStyle c) \<and>
      is_boolean (hasBlush c))"

section \<open>Configuration codec\<close>

definition AVATAR_COLLECTION :: string where
  "AVATAR_COLLECTION = ''xyz.bskatar.avatar''"

definition AVATAR_RKEY :: string where
  "AVATAR_RKEY = ''self''"

text \<open>The own properties of the configuration object, as spread by \<^verbatim>\<open>...currentConfig\<close>.\<close>

definition configProps :: "AvatarConfig \<Rightarrow> js_object" where
  "configProps c = [
     ''headShape'' \<mapsto> headShape c,
     ''headColor'' \<mapsto> headColor c,
     ''hairStyle'' \<mapsto> hairStyle c,
     ''hairColor'' \<mapsto> hairColor c,
     ''eyeStyle'' \<mapsto> eyeStyle c,
     ''eyeColor'' \<mapsto> eyeColor c,
     ''eyebrowStyle'' \<mapsto> eyebrowStyle c,
     ''noseStyle'' \<mapsto> noseStyle c,
     ''mouthStyle'' \<mapsto> mouthStyle c,
     ''hasBlush'' \<mapsto> hasBlush c ]"

text \<open>
  The payload literal of \<^verbatim>\<open>saveAvatarToBluesky\<close>:
  \<^verbatim>\<open>{ $type: AVATAR_COLLECTION, ...currentConfig, createdAt: new Date().toISOString() }\<close>.
  The timestamp read from the clock is the parameter \<open>now\<close>.
\<close>

definition toRecord :: "string \<Rightarrow> AvatarConfig \<Rightarrow> js_object" where
  "toRecord now c =
     ([''$type'' \<mapsto> JStr AVATAR_COLLECTION] ++ configProps c)(''createdAt'' \<mapsto> JStr now)"

text \<open>The default-filling object literal of \<^verbatim>\<open>loadAvatarFromBluesky\<close> in the editor.\<close>

definition fromRecord :: "js_object \<Rightarrow> AvatarConfig" where
  "fromRecord record = \<lparr>
     headShape = js_or (getProp record ''headShape'') (JStr ''round''),
     headColor = js_or (getProp record ''headColor'') (JStr ''#ffccaa''),
     hairStyle = js_or (getProp record ''hairStyle'') (JStr ''short''),
     hairColor = js_or (getProp record ''hairColor'') (JStr ''#4a3728''),
     eyeStyle = js_or (getProp record ''eyeStyle'') (JStr ''dots''),
     eyeColor = js_or (getProp record ''eyeColor'') (JStr ''#333333''),
     eyebrowStyle = js_or (getProp record ''eyebrowStyle'') (JStr ''normal''),
     noseStyle = js_or (getProp record ''noseStyle'') (JStr ''small''),
     mouthStyle = js_or (getProp record ''mouthStyle'') (JStr ''smile''),
     hasBlush = js_nullish (getProp record ''hasBlush'') (JBool True) \<rparr>"

text \<open>The same literal in the 3D world's \<^verbatim>\<open>loadAvatarFromBluesky\<close> (assigned to \<^verbatim>\<open>playerAvatar\<close>).\<close>

definition fromRecordWorld :: "js_object \<Rightarrow> AvatarConfig" where
  "fromRecordWorld record = \<lparr>
     headShape = js_or (getProp record ''headShape'') (JStr ''round''),
     headColor = js_or (getProp record ''headColor'') (JStr ''#ffccaa''),
     hairStyle = js_or (getProp record ''hairStyle'') (JStr ''short''),
     hairColor = js_or (getProp record ''hairColor'') (JStr ''#4a3728''),
     eyeStyle = js_or (getProp record ''eyeStyle'') (JStr ''dots''),
     eyeColor = js_or (getProp record ''eyeColor'') (JStr ''#333333''),
     eyebrowStyle = js_or (getProp record ''eyebrowStyle'') (JStr ''normal''),
     noseStyle = js_or (getProp record ''noseStyle'') (JStr ''small''),
     mouthStyle = js_or (getProp record ''mouthStyle'') (JStr ''smile''),
     hasBlush = js_nullish (getProp record ''hasBlush'') (JBool True) \<rparr>"

text \<open>The ten property names of the configuration shape.\<close>

definition configKeys :: "string list" where
  "configKeys = [''headShape'', ''headColor'', ''hairStyle'', ''hairColor'', ''eyeStyle'',
     ''eyeColor'', ''eyebrowStyle'', ''noseStyle'', ''mouthStyle'', ''hasBlush'']"

section \<open>Scene graph\<close>

text \<open>
  The objects of the 3D library that the generators construct. A geometry is the
  constructor call that made it (its arguments in call order) followed by the in-place
  transformations applied to it; a material records the parameters passed to it.
  Numbers are real numbers: the JavaScript doubles are idealised.
\<close>

type_synonym vec3 = "real \<times> real \<times> real"

datatype geometry =
    IcosahedronGeometry "real list"
  | BoxGeometry "real list"
  | SphereGeometry "real list"
  | ConeGeometry "real list"
  | CapsuleGeometry "real list"
  | TorusGeometry "real list"
  | CircleGeometry "real list"
  | GeomScale geometry real real real
  | GeomRotateX geometry real
  | GeomRotateZ geometry real
  | SetPositions geometry "vec3 list"

text \<open>\<^verbatim>\<open>new THREE.Color(value)\<close> and \<^verbatim>\<open>color.multiplyScalar(s)\<close>.\<close>

datatype three_color = Color jsval | MultiplyScalar three_color real

record material =
  color :: three_color
  flatShading :: bool
  transparent :: "bool option"
  opacity :: "real option"

record props =
  position :: vec3
  rotation :: vec3
  scale :: vec3
  castShadow :: bool

datatype kind = Mesh geometry material | Group

datatype object3d = Object3D kind props "object3d list"

definition defaultProps :: props where
  "defaultProps = \<lparr> position = (0, 0, 0), rotation = (0, 0, 0), scale = (1, 1, 1),
     castShadow = False \<rparr>"

definition newMesh :: "geometry \<Rightarrow> material \<Rightarrow> object3d" where
  "newMesh g m = Object3D (Mesh g m) defaultProps []"

definition newGroup :: object3d where
  "newGroup = Object3D Group defaultProps []"

fun children :: "object3d \<Rightarrow> object3d list" where
  "children (Object3D k p cs) = cs"

fun objKind :: "object3d \<Rightarrow> kind" where
  "objKind (Object3D k p cs) = k"

fun objProps :: "object3d \<Rightarrow> props" where
  "objProps (Object3D k p cs) = p"

fun updProps :: "(props \<Rightarrow> props) \<Rightarrow> object3d \<Rightarrow> object3d" where
  "updProps f (Object3D k p cs) = Object3D k (f p) cs"

text \<open>\<^verbatim>\<open>obj.position.set(x, y, z)\<close>, \<^verbatim>\<open>obj.position.y = y\<close>, \<^verbatim>\<open>obj.rotation.x = a\<close> and so on.\<close>

definition setPosition :: "real \<Rightarrow> real \<Rightarrow> real \<Rightarrow> object3d \<Rightarrow> object3d" where
  "setPosition x y z = updProps (\<lambda>p. p\<lparr>position := (x, y, z)\<rparr>)"

definition setPositionY :: "real \<Rightarrow> object3d \<Rightarrow> object3d" where
  "setPositionY y = updProps (\<lambda>p. case position p of (px, py, pz) \<Rightarrow> p\<lparr>position := (px, y, pz)\<rparr>)"

definition setRotationX :: "real \<Rightarrow> object3d \<Rightarrow> object3d" where
  "setRotationX a = updProps (\<lambda>p. case rotation p of (rx, ry, rz) \<Rightarrow> p\<lparr>rotation := (a, ry, rz)\<rparr>)"

definition setRotationY :: "real \<Rightarrow> object3d \<Rightarrow> object3d" where
  "setRotationY a = updProps (\<lambda>p. case rotation p of (rx, ry, rz) \<Rightarrow> p\<lparr>rotation := (rx, a, rz)\<rparr>)"

definition setRotationZ :: "real \<Rightarrow> object3d \<Rightarrow> object3d" where
  "setRotationZ a = updProps (\<lambda>p. case rotation p of (rx, ry, rz) \<Rightarrow> p\<lparr>rotation := (rx, ry, a)\<rparr>)"

definition setScaleY :: "real \<Rightarrow> object3d \<Rightarrow> object3d" where
  "setScaleY s = updProps (\<lambda>p. case scale p of (sx, sy, sz) \<Rightarrow> p\<lparr>scale := (sx, s, sz)\<rparr>)"

definition setScalar :: "real \<Rightarrow> object3d \<Rightarrow> object3d" where
  "setScalar s = updProps (\<lambda>p. p\<lparr>scale := (s, s, s)\<rparr>)"

definition setCastShadow :: "bool \<Rightarrow> object3d \<Rightarrow> object3d" where
  "setCastShadow b = updProps (\<lambda>p. p\<lparr>castShadow := b\<rparr>)"

text \<open>\<^verbatim>\<open>parent.add(a, b, ...)\<close> appends the freshly made objects to the children, in order.\<close>

fun addChildren :: "object3d \<Rightarrow> object3d list \<Rightarrow> object3d" where
  "addChildren (Object3D k p cs) xs = Object3D k p (cs @ xs)"

text \<open>
  \<^verbatim>\<open>parent.remove(obj)\<close> looks the object up in the children (\<^verbatim>\<open>indexOf\<close>) and splices
  it out when found.
\<close>

fun removeChild :: "object3d \<Rightarrow> object3d \<Rightarrow> object3d" where
  "removeChild (Object3D k p cs) obj = Object3D k p (remove1 obj cs)"

section \<open>Feature generators of the avatar editor\<close>

text \<open>\<^verbatim>\<open>createMaterial(color, options?)\<close> of the editor.\<close>

definition createMaterial :: "three_color \<Rightarrow> (bool option \<times> real option) option \<Rightarrow> material" where
  "createMaterial c options = \<lparr>
     color = c,
     flatShading = True,
     transparent = (case options of None \<Rightarrow> None | Some (t, opa) \<Rightarrow> t),
     opacity = (case options of None \<Rightarrow> None | Some (t, opa) \<Rightarrow> opa) \<rparr>"

subsection \<open>Head\<close>

text \<open>
  The position attribute of \<^verbatim>\<open>BoxGeometry(width, height, depth, ws, hs, ds)\<close>: the library
  lays a grid of \<open>(gridX + 1) \<times> (gridY + 1)\<close> vertices on each of the six faces
  (\<^verbatim>\<open>buildPlane\<close>), in the order +x, -x, +y, -y, +z, -z.
\<close>

definition buildPlane ::
  "(real \<Rightarrow> real \<Rightarrow> real \<Rightarrow> vec3) \<Rightarrow> real \<Rightarrow> real \<Rightarrow> real \<Rightarrow> real \<Rightarrow> real \<Rightarrow> nat \<Rightarrow> nat \<Rightarrow> vec3 list" where
  "buildPlane place udir vdir width height depth gridX gridY =
     concat (map (\<lambda>iy. map (\<lambda>ix.
         place ((real ix * (width / real gridX) - width / 2) * udir)
               ((real iy * (height / real gridY) - height / 2) * vdir)
               (depth / 2))
       [0..<gridX + 1]) [0..<gridY + 1])"

definition boxPositions :: "real \<Rightarrow> real \<Rightarrow> real \<Rightarrow> nat \<Rightarrow> nat \<Rightarrow> nat \<Rightarrow> vec3 list" where
  "boxPositions width height depth ws hs ds =
     buildPlane (\<lambda>u v w. (w, v, u)) (- 1) (- 1) depth height width ds hs @
     buildPlane (\<lambda>u v w. (w, v, u)) 1 (- 1) depth height (- width) ds hs @
     buildPlane (\<lambda>u v w. (u, w, v)) 1 1 width depth height ws ds @
     buildPlane (\<lambda>u v w. (u, w, v)) 1 (- 1) width depth (- height) ws ds @
     buildPlane (\<lambda>u v w. (u, v, w)) 1 (- 1) width height depth ws hs @
     buildPlane (\<lambda>u v w. (u, v, w)) (- 1) (- 1) width height (- depth) ws hs"

text \<open>The vertices of the square head's base box, \<^verbatim>\<open>BoxGeometry(1.6, 1.8, 1.5, 2, 2, 2)\<close>.\<close>

definition squareBoxPositions :: "vec3 list" where
  "squareBoxPositions = boxPositions 1.6 1.8 1.5 2 2 2"

text \<open>\<^verbatim>\<open>Math.sqrt(x*x + y*y + z*z)\<close>: the distance of a vertex from the origin.\<close>

fun vlength :: "vec3 \<Rightarrow> real" where
  "vlength (x, y, z) = sqrt (x * x + y * y + z * z)"

text \<open>
  The body of the inflation loop for one vertex. (A vertex at the origin would divide by
  zero; the box has none.)
\<close>

fun inflateVertex :: "vec3 \<Rightarrow> vec3" where
  "inflateVertex (x, y, z) =
     (let length = sqrt (x * x + y * y + z * z);
          factor = 0.15
      in (x + (x / length - x) * factor,
          y + (y / length - y) * factor,
          z + (z / length - z) * factor))"

text \<open>\<^verbatim>\<open>for (let i = 0; i < positions.count; i++) { ... positions.setXYZ(i, ...) }\<close>.\<close>

function inflateFrom :: "nat \<Rightarrow> vec3 list \<Rightarrow> vec3 list" where
  "inflateFrom i positions =
     (if i < length positions
      then inflateFrom (i + 1) (positions[i := inflateVertex (positions ! i)])
      else positions)"
  by pat_completeness auto
termination
  by (relation "measure (\<lambda>(i, positions). length positions - i)") auto

declare inflateFrom.simps [simp del]

definition createHead :: "jsval \<Rightarrow> jsval \<Rightarrow> object3d" where
  "createHead shape c =
     (let geometry =
        (if shape = JStr ''round'' then IcosahedronGeometry [1, 1]
         else if shape = JStr ''oval'' then GeomScale (IcosahedronGeometry [1, 1]) 0.85 1.1 0.9
         else if shape = JStr ''square'' then
           SetPositions (BoxGeometry [1.6, 1.8, 1.5, 2, 2, 2]) (inflateFrom 0 squareBoxPositions)
         else IcosahedronGeometry [1, 1])
      in newMesh geometry (createMaterial (Color c) None))"

subsection \<open>Hair\<close>

text \<open>
  The \<^verbatim>\<open>switch\<close> has no \<^verbatim>\<open>default\<close> branch: a style matching no case leaves the group
  as it is. (The bob's clip box is constructed but never added to the group.)
\<close>

definition spikePositions :: "(real \<times> real \<times> real \<times> real \<times> real) list" where
  "spikePositions = [
     (0, 1.1, 0, 0, 0),
     (0.3, 1.0, 0.1, 0.2, - 0.3),
     (- 0.3, 1.0, 0.1, 0.2, 0.3),
     (0.15, 1.05, - 0.2, - 0.2, - 0.15),
     (- 0.15, 1.05, - 0.2, - 0.2, 0.15),
     (0, 0.95, 0.35, 0.5, 0),
     (0.4, 0.85, 0.2, 0.3, - 0.5),
     (- 0.4, 0.85, 0.2, 0.3, 0.5) ]"

definition createHair :: "jsval \<Rightarrow> jsval \<Rightarrow> object3d" where
  "createHair style c =
     (let hairGroup = newGroup in
      if style = JStr ''none'' then hairGroup
      else
        let hairMaterial = createMaterial (Color c) None in
        if style = JStr ''short'' then
          (let capGeom = SphereGeometry [1.05, 8, 6, 0, pi * 2, 0, pi * 0.45];
               cap = setPositionY 0.15 (newMesh capGeom hairMaterial);
               hairGroup = addChildren hairGroup [cap];
               bangGeom = BoxGeometry [0.8, 0.15, 0.3, 2, 1, 1];
               bangs = setRotationX 0.3 (setPosition 0 0.75 0.7 (newMesh bangGeom hairMaterial))
           in addChildren hairGroup [bangs])
        else if style = JStr ''spiky'' then
          (let spikeGeom = ConeGeometry [0.15, 0.5, 4]
           in foldl (\<lambda>g (x, y, z, rotX, rotZ).
                  addChildren g
                    [setRotationZ rotZ (setRotationX rotX
                       (setPosition x y z (newMesh spikeGeom hairMaterial)))])
                hairGroup spikePositions)
        else if style = JStr ''bob'' then
          (let bobGeom = GeomScale (SphereGeometry [1.1, 8, 6]) 1 0.9 0.95;
               bob = setPositionY 0.2 (newMesh bobGeom hairMaterial);
               hairGroup = addChildren hairGroup [bob];
               sideGeom = CapsuleGeometry [0.25, 0.4, 4, 8];
               leftSide = setRotationZ 0.15 (setPosition (- 0.85) (- 0.1) 0.2 (newMesh sideGeom hairMaterial));
               rightSide = setRotationZ (- 0.15) (setPosition 0.85 (- 0.1) 0.2 (newMesh sideGeom hairMaterial));
               hairGroup = addChildren hairGroup [leftSide, rightSide];
               bangGeom = BoxGeometry [0.9, 0.2, 0.25, 2, 1, 1];
               bangs = setRotationX 0.4 (setPosition 0 0.7 0.75 (newMesh bangGeom hairMaterial))
           in addChildren hairGroup [bangs])
        else if style = JStr ''ponytail'' then
          (let capGeom = SphereGeometry [1.05, 8, 6, 0, pi * 2, 0, pi * 0.5];
               cap = setPositionY 0.1 (newMesh capGeom hairMaterial);
               hairGroup = addChildren hairGroup [cap];
               tailGeom = CapsuleGeometry [0.2, 0.7, 4, 8];
               tail = setRotationX 0.6 (setPosition 0 0.3 (- 0.9) (newMesh tailGeom hairMaterial));
               hairGroup = addChildren hairGroup [tail];
               tieGeom = TorusGeometry [0.15, 0.05, 6, 8];
               tieMaterial = createMaterial (Color (JStr ''#ff6b6b'')) None;
               tie = setRotationX (pi / 2 + 0.3) (setPosition 0 0.6 (- 0.85) (newMesh tieGeom tieMaterial));
               hairGroup = addChildren hairGroup [tie];
               bangGeom = BoxGeometry [0.7, 0.15, 0.25, 2, 1, 1];
               bangs = setRotationX 0.3 (setPosition 0 0.75 0.7 (newMesh bangGeom hairMaterial))
           in addChildren hairGroup [bangs])
        else hairGroup)"

subsection \<open>Eyebrows\<close>

definition createEyebrows :: "jsval \<Rightarrow> jsval \<Rightarrow> object3d" where
  "createEyebrows style c =
     (let browGroup = newGroup in
      if style = JStr ''none'' then browGroup
      else
        let browMaterial = createMaterial (Color c) None;
            eyeSpacing = 0.35;
            browY = 0.4;
            browZ = 0.82
        in
        if style = JStr ''normal'' then
          (let browGeom = BoxGeometry [0.2, 0.04, 0.05, 1, 1, 1];
               leftBrow = setPosition (- eyeSpacing) browY browZ (newMesh browGeom browMaterial);
               rightBrow = setPosition eyeSpacing browY browZ (newMesh browGeom browMaterial)
           in addChildren browGroup [leftBrow, rightBrow])
        else if style = JStr ''angry'' then
          (let browGeom = BoxGeometry [0.22, 0.05, 0.05, 1, 1, 1];
               leftBrow = setRotationZ 0.4
                 (setPosition (- eyeSpacing) browY browZ (newMesh browGeom browMaterial));
               rightBrow = setRotationZ (- 0.4)
                 (setPosition eyeSpacing browY browZ (newMesh browGeom browMaterial))
           in addChildren browGroup [leftBrow, rightBrow])
        else if style = JStr ''worried'' then
          (let browGeom = BoxGeometry [0.22, 0.05, 0.05, 1, 1, 1];
               leftBrow = setRotationZ (- 0.35)
                 (setPosition (- eyeSpacing) browY browZ (newMesh browGeom browMaterial));
               rightBrow = setRotationZ 0.35
                 (setPosition eyeSpacing browY browZ (newMesh browGeom browMaterial))
           in addChildren browGroup [leftBrow, rightBrow])
        else if style = JStr ''thick'' then
          (let browGeom = BoxGeometry [0.25, 0.08, 0.06, 1, 1, 1];
               leftBrow = setPosition (- eyeSpacing) browY browZ (newMesh browGeom browMaterial);
               rightBrow = setPosition eyeSpacing browY browZ (newMesh browGeom browMaterial)
           in addChildren browGroup [leftBrow, rightBrow])
        else browGroup)"

subsection \<open>Nose\<close>

definition createNose :: "jsval \<Rightarrow> jsval \<Rightarrow> object3d" where
  "createNose style headCol =
     (let noseGroup = newGroup in
      if style = JStr ''none'' then noseGroup
      else
        let noseColor = MultiplyScalar (Color headCol) 0.9;
            noseMaterial = createMaterial noseColor None;
            noseY = - 0.05;
            noseZ = 0.95
        in
        if style = JStr ''small'' then
          (let noseGeom = SphereGeometry [0.06, 6, 4];
               nose = setPosition 0 noseY noseZ (newMesh noseGeom noseMaterial)
           in addChildren noseGroup [nose])
        else if style = JStr ''round'' then
          (let noseGeom = GeomScale (SphereGeometry [0.1, 6, 4]) 1 0.8 0.7;
               nose = setPosition 0 noseY noseZ (newMesh noseGeom noseMaterial)
           in addChildren noseGroup [nose])
        else if style = JStr ''pointed'' then
          (let noseGeom = GeomRotateX (ConeGeometry [0.06, 0.15, 4]) (- pi / 2);
               nose = setPosition 0 noseY (noseZ + 0.05) (newMesh noseGeom noseMaterial)
           in addChildren noseGroup [nose])
        else noseGroup)"

subsection \<open>Eyes\<close>

definition createEyes :: "jsval \<Rightarrow> jsval \<Rightarrow> object3d" where
  "createEyes style c =
     (let eyeGroup = newGroup;
          eyeMaterial = createMaterial (Color c) None;
          whiteMaterial = createMaterial (Color (JNum 16777215)) None;
          eyeSpacing = 0.35;
          eyeY = 0.15;
          eyeZ = 0.85
      in
      if style = JStr ''dots'' then
        (let dotGeom = SphereGeometry [0.08, 8, 6];
             leftDot = setPosition (- eyeSpacing) eyeY eyeZ (newMesh dotGeom eyeMaterial);
             rightDot = setPosition eyeSpacing eyeY eyeZ (newMesh dotGeom eyeMaterial)
         in addChildren eyeGroup [leftDot, rightDot])
      else if style = JStr ''wide'' then
        (let wideWhiteGeom = SphereGeometry [0.15, 8, 6];
             widePupilGeom = SphereGeometry [0.08, 8, 6];
             leftWhite = setPosition (- eyeSpacing) eyeY (eyeZ - 0.05) (newMesh wideWhiteGeom whiteMaterial);
             leftPupil = setPosition (- eyeSpacing) eyeY (eyeZ + 0.08) (newMesh widePupilGeom eyeMaterial);
             rightWhite = setPosition eyeSpacing eyeY (eyeZ - 0.05) (newMesh wideWhiteGeom whiteMaterial);
             rightPupil = setPosition eyeSpacing eyeY (eyeZ + 0.08) (newMesh widePupilGeom eyeMaterial)
         in addChildren eyeGroup [leftWhite, leftPupil, rightWhite, rightPupil])
      else if style = JStr ''sleepy'' then
        (let sleepyGeom = GeomRotateZ (CapsuleGeometry [0.04, 0.12, 4, 8]) (pi / 2);
             leftSleepy = setScaleY 0.5
               (setPosition (- eyeSpacing) eyeY eyeZ (newMesh sleepyGeom eyeMaterial));
             rightSleepy = setScaleY 0.5
               (setPosition eyeSpacing eyeY eyeZ (newMesh sleepyGeom eyeMaterial))
         in addChildren eyeGroup [leftSleepy, rightSleepy])
      else if style = JStr ''sparkle'' then
        (let whiteGeom = SphereGeometry [0.16, 8, 6];
             pupilGeom = SphereGeometry [0.1, 8, 6];
             shineGeom = SphereGeometry [0.04, 6, 4];
             shineMaterial = createMaterial (Color (JNum 16777215)) None;
             leftWhite = setPosition (- eyeSpacing) eyeY (eyeZ - 0.05) (newMesh whiteGeom whiteMaterial);
             leftPupil = setPosition (- eyeSpacing) eyeY (eyeZ + 0.06) (newMesh pupilGeom eyeMaterial);
             leftShine = setPosition (- eyeSpacing + 0.05) (eyeY + 0.05) (eyeZ + 0.12)
               (newMesh shineGeom shineMaterial);
             rightWhite = setPosition eyeSpacing eyeY (eyeZ - 0.05) (newMesh whiteGeom whiteMaterial);
             rightPupil = setPosition eyeSpacing eyeY (eyeZ + 0.06) (newMesh pupilGeom eyeMaterial);
             rightShine = setPosition (eyeSpacing + 0.05) (eyeY + 0.05) (eyeZ + 0.12)
               (newMesh shineGeom shineMaterial)
         in addChildren eyeGroup
              [leftWhite, leftPupil, leftShine, rightWhite, rightPupil, rightShine])
      else eyeGroup)"

subsection \<open>Mouth\<close>

definition createMouth :: "jsval \<Rightarrow> object3d" where
  "createMouth style =
     (let mouthGroup = newGroup;
          mouthMaterial = createMaterial (Color (JNum 3355443)) None;
          tongueMaterial = createMaterial (Color (JNum 16739179)) None;
          mouthY = - 0.25;
          mouthZ = 0.9
      in
      if style = JStr ''smile'' then
        (let smileGeom = GeomRotateZ (GeomRotateX (TorusGeometry [0.15, 0.025, 8, 12, pi]) pi) pi;
             smile = setPosition 0 mouthY mouthZ (newMesh smileGeom mouthMaterial)
         in addChildren mouthGroup [smile])
      else if style = JStr ''neutral'' then
        (let lineGeom = GeomRotateZ (CapsuleGeometry [0.02, 0.2, 4, 8]) (pi / 2);
             line = setPosition 0 mouthY mouthZ (newMesh lineGeom mouthMaterial)
         in addChildren mouthGroup [line])
      else if style = JStr ''open'' then
        (let openGeom = GeomScale (SphereGeometry [0.12, 8, 6]) 1.3 0.8 0.5;
             openMouth = setPosition 0 mouthY mouthZ (newMesh openGeom mouthMaterial);
             tongueGeom = GeomScale (SphereGeometry [0.06, 6, 4]) 1 0.6 0.5;
             tongue = setPosition 0 (mouthY - 0.05) (mouthZ + 0.02) (newMesh tongueGeom tongueMaterial)
         in addChildren mouthGroup [openMouth, tongue])
      else if style = JStr ''cat'' then
        (let leftGeom = GeomRotateZ (GeomRotateX (TorusGeometry [0.08, 0.02, 6, 8, pi]) pi) (pi * 0.75);
             left = setPosition (- 0.06) (mouthY - 0.02) mouthZ (newMesh leftGeom mouthMaterial);
             rightGeom = GeomRotateZ (GeomRotateX (TorusGeometry [0.08, 0.02, 6, 8, pi]) pi) (pi * 0.25);
             right = setPosition 0.06 (mouthY - 0.02) mouthZ (newMesh rightGeom mouthMaterial)
         in addChildren mouthGroup [left, right])
      else if style = JStr ''surprised'' then
        (let oGeom = TorusGeometry [0.1, 0.03, 8, 12];
             oMesh = setPosition 0 mouthY mouthZ (newMesh oGeom mouthMaterial)
         in addChildren mouthGroup [oMesh])
      else mouthGroup)"

subsection \<open>Blush\<close>

definition createBlush :: object3d where
  "createBlush =
     (let blushGroup = newGroup;
          blushMaterial = createMaterial (Color (JNum 16755370)) (Some (Some True, Some 0.6));
          blushGeom = CircleGeometry [0.1, 6];
          leftBlush = setRotationY (- 0.4) (setPosition (- 0.55) (- 0.05) 0.75 (newMesh blushGeom blushMaterial));
          rightBlush = setRotationY 0.4 (setPosition 0.55 (- 0.05) 0.75 (newMesh blushGeom blushMaterial))
      in addChildren blushGroup [leftBlush, rightBlush])"

section \<open>Avatar assembler of the editor\<close>

text \<open>\<^verbatim>\<open>while (group.children.length > 0) { group.remove(group.children[0]) }\<close>.\<close>

function clearChildren :: "object3d \<Rightarrow> object3d" where
  "clearChildren g =
     (if length (children g) > 0 then clearChildren (removeChild g (children g ! 0)) else g)"
  by pat_completeness auto
termination
proof (relation "measure (\<lambda>g. length (children g))")
  show "wf (measure (\<lambda>g. length (children g)))" by simp
next
  fix g :: object3d
  assume "0 < length (children g)"
  then show "(removeChild g (children g ! 0), g) \<in> measure (\<lambda>g. length (children g))"
    by (cases g) (auto simp: neq_Nil_conv)
qed

declare clearChildren.simps [simp del]

text \<open>
  \<^verbatim>\<open>buildAvatar(config)\<close> acts on the module-level \<^verbatim>\<open>avatarGroup\<close>, passed here as \<open>g\<close>
  and returned updated.
\<close>

definition buildAvatar :: "AvatarConfig \<Rightarrow> object3d \<Rightarrow> object3d" where
  "buildAvatar config g =
     (let avatarGroup = clearChildren g;
          head = createHead (headShape config) (headColor config);
          avatarGroup = addChildren avatarGroup [head];
          hair = createHair (hairStyle config) (hairColor config);
          avatarGroup = addChildren avatarGroup [hair];
          nose = createNose (noseStyle config) (headColor config);
          avatarGroup = addChildren avatarGroup [nose];
          eyes = createEyes (eyeStyle config) (eyeColor config);
          avatarGroup = addChildren avatarGroup [eyes];
          eyebrows = createEyebrows (eyebrowStyle config) (hairColor config);
          avatarGroup = addChildren avatarGroup [eyebrows];
          mouth = createMouth (mouthStyle config);
          avatarGroup = addChildren avatarGroup [mouth]
      in if truthy (hasBlush config)
         then (let blush = createBlush in addChildren avatarGroup [blush])
         else avatarGroup)"

section \<open>Player avatar of the 3D world\<close>

text \<open>\<^verbatim>\<open>createMaterial(color)\<close> of the 3D world: no transparency options.\<close>

definition createMaterialWorld :: "three_color \<Rightarrow> material" where
  "createMaterialWorld c = \<lparr> color = c, flatShading = True, transparent = None, opacity = None \<rparr>"

text \<open>
  \<^verbatim>\<open>buildPlayerAvatar(config)\<close> acts on the module-level \<^verbatim>\<open>player\<close> group, passed as
  \<open>pl\<close> and returned updated; the avatar is one new group added to it.
\<close>

definition buildPlayerAvatar :: "AvatarConfig \<Rightarrow> object3d \<Rightarrow> object3d" where
  "buildPlayerAvatar config pl =
     (let player = clearChildren pl;
          avatarGroup = setScalar 0.6 (setPositionY 1.2 newGroup);
          headGeom =
            (if headShape config = JStr ''oval'' then GeomScale (IcosahedronGeometry [1, 1]) 0.85 1.1 0.9
             else if headShape config = JStr ''square'' then BoxGeometry [1.6, 1.8, 1.5, 2, 2, 2]
             else IcosahedronGeometry [1, 1]);
          head = setCastShadow True (newMesh headGeom (createMaterialWorld (Color (headColor config))));
          avatarGroup = addChildren avatarGroup [head];
          bodyGeom = CapsuleGeometry [0.4, 0.8, 4, 8];
          body = setCastShadow True
            (setPositionY (- 1.4) (newMesh bodyGeom (createMaterialWorld (Color (headColor config)))));
          avatarGroup = addChildren avatarGroup [body];
          avatarGroup =
            (if hairStyle config \<noteq> JStr ''none'' then
               (let hairMat = createMaterialWorld (Color (hairColor config)) in
                if hairStyle config = JStr ''spiky'' then
                  (let spikeGeom = ConeGeometry [0.15, 0.5, 4];
                       positions = [(0, 1.1, 0), (0.3, 1.0, 0.1), (- 0.3, 1.0, 0.1)]
                   in foldl (\<lambda>g (x, y, z).
                          addChildren g
                            [setCastShadow True (setPosition x y z (newMesh spikeGeom hairMat))])
                        avatarGroup positions)
                else
                  (let hairGeom = SphereGeometry [1.05, 8, 6, 0, pi * 2, 0, pi * 0.45];
                       hair = setCastShadow True (setPositionY 0.15 (newMesh hairGeom hairMat))
                   in addChildren avatarGroup [hair]))
             else avatarGroup);
          eyeMat = createMaterialWorld (Color (eyeColor config));
          eyeGeom = SphereGeometry [0.08, 8, 6];
          leftEye = setPosition (- 0.3) 0.15 0.85 (newMesh eyeGeom eyeMat);
          rightEye = setPosition 0.3 0.15 0.85 (newMesh eyeGeom eyeMat);
          avatarGroup = addChildren avatarGroup [leftEye, rightEye];
          avatarGroup =
            (if truthy (hasBlush config) then
               (let blushMat = \<lparr> color = Color (JNum 16755370), flatShading = False,
                                  transparent = Some True, opacity = Some 0.6 \<rparr>;
                    blushGeom = CircleGeometry [0.1, 6];
                    leftBlush = setRotationY (- 0.4)
                      (setPosition (- 0.5) (- 0.05) 0.75 (newMesh blushGeom blushMat));
                    rightBlush = setRotationY 0.4
                      (setPosition 0.5 (- 0.05) 0.75 (newMesh blushGeom blushMat))
                in addChildren avatarGroup [leftBlush, rightBlush])
             else avatarGroup)
      in addChildren player [avatarGroup])"

text \<open>The avatar group that \<^verbatim>\<open>buildPlayerAvatar\<close> leaves under the player.\<close>

definition playerAvatarGroup :: "AvatarConfig \<Rightarrow> object3d \<Rightarrow> object3d" where
  "playerAvatarGroup config pl = last (children (buildPlayerAvatar config pl))"

section \<open>Persistence gateway of the editor\<close>

text \<open>An error thrown by the agent or by the code itself: \<^verbatim>\<open>err.message\<close> and \<^verbatim>\<open>err.status\<close>.\<close>

record js_error =
  message :: "string option"
  status :: "int option"

text \<open>The value \<^verbatim>\<open>{ success, error? }\<close> that save and load resolve to.\<close>

record result =
  success :: bool
  error :: "string option"

text \<open>The module state of the editor that save and load read and write.\<close>

record app =
  isLoggedIn :: bool
  currentConfig :: AvatarConfig
  avatarGroup :: object3d

text \<open>
  What the outside world answers during one call: the session's \<^verbatim>\<open>did\<close>, the outcome of
  each request (a thrown error or a value), and the clock read at each of the two
  \<^verbatim>\<open>new Date().toISOString()\<close> sites of save.
\<close>

record env =
  sessionDid :: "string option"
  putRecordResponse :: "js_error + unit"
  createRecordResponse :: "js_error + unit"
  getRecordResponse :: "js_error + js_object"
  nowPut :: string
  nowCreate :: string

text \<open>The observable effects, in the order they happen.\<close>

datatype event =
    PutRecord string string string js_object
  | CreateRecord string string string js_object
  | GetRecord string string string
  | Notification string
  | ConsoleLog string
  | ConsoleError string

text \<open>\<^verbatim>\<open>err.message || fallback\<close>.\<close>

definition messageOr :: "js_error \<Rightarrow> string \<Rightarrow> string" where
  "messageOr err fallback =
     (case message err of None \<Rightarrow> fallback | Some m \<Rightarrow> if m \<noteq> [] then m else fallback)"

text \<open>\<^verbatim>\<open>agent.session?.did\<close> followed by \<^verbatim>\<open>if (!repo) throw new Error('No session')\<close>.\<close>

definition requireRepo :: "env \<Rightarrow> js_error + string" where
  "requireRepo e =
     (case sessionDid e of
        None \<Rightarrow> Inl \<lparr> message = Some ''No session'', status = None \<rparr>
      | Some repo \<Rightarrow>
          if repo = [] then Inl \<lparr> message = Some ''No session'', status = None \<rparr> else Inr repo)"

definition saveAvatarToBluesky :: "env \<Rightarrow> app \<Rightarrow> result \<times> event list" where
  "saveAvatarToBluesky e a =
     (if \<not> isLoggedIn a then (\<lparr> success = False, error = Some ''Not logged in'' \<rparr>, [])
      else
        let (outcome, events) =
          (case requireRepo e of
             Inl err \<Rightarrow> (Inl err, [])
           | Inr repo \<Rightarrow>
               let put = PutRecord repo AVATAR_COLLECTION AVATAR_RKEY
                     (toRecord (nowPut e) (currentConfig a))
               in (case putRecordResponse e of
                     Inr u \<Rightarrow> (Inr (), [put])
                   | Inl putErr \<Rightarrow>
                       let create = CreateRecord repo AVATAR_COLLECTION AVATAR_RKEY
                             (toRecord (nowCreate e) (currentConfig a))
                       in (case createRecordResponse e of
                             Inr u \<Rightarrow> (Inr (), [put, create])
                           | Inl err \<Rightarrow> (Inl err, [put, create]))))
        in (case outcome of
              Inr u \<Rightarrow> (\<lparr> success = True, error = None \<rparr>,
                         events @ [Notification ''Avatar saved to Bluesky!''])
            | Inl err \<Rightarrow> (\<lparr> success = False, error = Some (messageOr err ''Save failed'') \<rparr>,
                           events @ [ConsoleError ''Save error:''])))"

text \<open>\<^verbatim>\<open>haystack.includes(needle)\<close> on strings.\<close>

fun startsWith :: "string \<Rightarrow> string \<Rightarrow> bool" where
  "startsWith s [] = True"
| "startsWith [] (n # ns) = False"
| "startsWith (c # cs) (n # ns) = (c = n \<and> startsWith cs ns)"

fun includesStr :: "string \<Rightarrow> string \<Rightarrow> bool" where
  "includesStr [] needle = (needle = [])"
| "includesStr (c # cs) needle = (startsWith (c # cs) needle \<or> includesStr cs needle)"

text \<open>The test of the \<^verbatim>\<open>catch\<close> block: \<^verbatim>\<open>err.message?.includes('not found') || err.status === 400\<close>.\<close>

definition isNotFound :: "js_error \<Rightarrow> bool" where
  "isNotFound err =
     ((case message err of None \<Rightarrow> False | Some m \<Rightarrow> includesStr m ''not found'') \<or>
      status err = Some 400)"




section \<open>Notions used to state the properties\<close>

text \<open>The squared distance of a vertex from the origin.\<close>

fun len2 :: "vec3 \<Rightarrow> real" where
  "len2 (x, y, z) = x * x + y * y + z * z"

text \<open>
  The corners of the square head's base box, and the centres of its faces (the vertices
  with two coordinates zero).
\<close>

fun isCorner :: "vec3 \<Rightarrow> bool" where
  "isCorner (x, y, z) = (\<bar>x\<bar> = 0.8 \<and> \<bar>y\<bar> = 0.9 \<and> \<bar>z\<bar> = 0.75)"

fun isFaceCenter :: "vec3 \<Rightarrow> bool" where
  "isFaceCenter (x, y, z) = ((y = 0 \<and> z = 0) \<or> (x = 0 \<and> z = 0) \<or> (x = 0 \<and> y = 0))"

text \<open>How far the inflation moves a vertex.\<close>

fun displacement :: "vec3 \<Rightarrow> real" where
  "displacement (x, y, z) =
     (case inflateVertex (x, y, z) of (x', y', z') \<Rightarrow> vlength (x' - x, y' - y, z' - z))"

text \<open>The declared domain of the field stored under a property name.\<close>

definition fieldDomain :: "string \<Rightarrow> jsval \<Rightarrow> bool" where
  "fieldDomain k v =
     (if k = ''headShape'' then is_style headShapes v
      else if k = ''hairStyle'' then is_style hairStyles v
      else if k = ''eyeStyle'' then is_style eyeStyles v
      else if k = ''eyebrowStyle'' then is_style eyebrowStyles v
      else if k = ''noseStyle'' then is_style noseStyles v
      else if k = ''mouthStyle'' then is_style mouthStyles v
      else if k = ''headColor'' \<or> k = ''hairColor'' \<or> k = ''eyeColor'' then is_hex_color v
      else if k = ''hasBlush'' then is_boolean v
      else False)"

text \<open>The field of a configuration stored under a property name.\<close>

definition configField :: "AvatarConfig \<Rightarrow> string \<Rightarrow> jsval" where
  "configField c k = getProp (configProps c) k"

text \<open>
  A mesh without children at the given position and rotation, with unit scale and the
  given shadow flag.
\<close>

definition meshNode :: "geometry \<Rightarrow> material \<Rightarrow> vec3 \<Rightarrow> vec3 \<Rightarrow> bool \<Rightarrow> object3d" where
  "meshNode g m pos rot shadow =
     Object3D (Mesh g m)
       \<lparr> position = pos, rotation = rot, scale = (1, 1, 1), castShadow = shadow \<rparr> []"

subsection \<open>Sample inputs\<close>

definition sampleConfig :: AvatarConfig where
  "sampleConfig = \<lparr>
     headShape = JStr ''square'',
     headColor = JStr ''#f5d0c5'',
     hairStyle = JStr ''none'',
     hairColor = JStr ''#1a1a2e'',
     eyeStyle = JStr ''sparkle'',
     eyeColor = JStr ''#2d5a27'',
     eyebrowStyle = JStr ''thick'',
     noseStyle = JStr ''pointed'',
     mouthStyle = JStr ''cat'',
     hasBlush = JBool False \<rparr>"

text \<open>A record with an unrecognised style, an empty string, a stored \<^verbatim>\<open>false\<close> and a foreign field.\<close>

definition partialRecord :: js_object where
  "partialRecord = [
     ''headShape'' \<mapsto> JStr ''triangle'',
     ''hairStyle'' \<mapsto> JStr [],
     ''hasBlush'' \<mapsto> JBool False,
     ''nickname'' \<mapsto> JStr ''bob'' ]"

definition ovalRecord :: js_object where
  "ovalRecord = [''headShape'' \<mapsto> JStr ''oval'']"

definition loggedInApp :: app where
  "loggedInApp = \<lparr> isLoggedIn = True, currentConfig = sampleConfig,
     avatarGroup = buildAvatar sampleConfig newGroup \<rparr>"

definition baseEnv :: env where
  "baseEnv = \<lparr>
     sessionDid = Some ''did:plc:alice'',
     putRecordResponse = Inr (),
     createRecordResponse = Inr (),
     getRecordResponse = Inr ovalRecord,
     nowPut = ''2024-01-01T00:00:00.000Z'',
     nowCreate = ''2024-01-01T00:00:00.250Z'' \<rparr>"

text \<open>The update request fails for a reason other than a missing record.\<close>

definition networkFailure :: js_error where
  "networkFailure = \<lparr> message = Some ''fetch failed'', status = None \<rparr>"

definition putFailsEnv :: env where
  "putFailsEnv = baseEnv\<lparr>putRecordResponse := Inl networkFailure\<rparr>"

text \<open>The read request fails with a server error whose message is \<^verbatim>\<open>'No avatar saved yet'\<close>.\<close>

definition sentinelFailure :: js_error where
  "sentinelFailure = \<lparr> message = Some ''No avatar saved yet'', status = Some 500 \<rparr>"

definition getFailsEnv :: env where
  "getFailsEnv = baseEnv\<lparr>getRecordResponse := Inl sentinelFailure\<rparr>"

text \<open>The read request finds no record.\<close>

definition recordNotFound :: js_error where
  "recordNotFound = \<lparr> message = Some ''Could not locate record'', status = Some 400 \<rparr>"

definition noRecordEnv :: env where
  "noRecordEnv = baseEnv\<lparr>getRecordResponse := Inl recordNotFound\<rparr>"

section \<open>Properties of the configuration codec\<close>

lemma truthy_style: "is_style styles v \<Longrightarrow> [] \<notin> set styles \<Longrightarrow> truthy v"
  by (cases v) (auto simp: is_style_def)

lemma truthy_hex: "is_hex_color v \<Longrightarrow> truthy v"
  by (cases v) (auto simp: is_hex_color_def split: list.splits)

lemma not_nullish_boolean: "is_boolean v \<Longrightarrow> v \<noteq> JUndefined \<and> v \<noteq> JNull"
  by (cases v) (auto simp: is_boolean_def)

lemma in_domain_truthy:
  assumes "in_domain c"
  shows "truthy (headShape c)" "truthy (headColor c)" "truthy (hairStyle c)"
    "truthy (hairColor c)" "truthy (eyeStyle c)" "truthy (eyeColor c)"
    "truthy (eyebrowStyle c)" "truthy (noseStyle c)" "truthy (mouthStyle c)"
    "hasBlush c \<noteq> JUndefined" "hasBlush c \<noteq> JNull"
proof -
  show "truthy (headShape c)"
    using assms by (auto simp: in_domain_def headShapes_def intro: truthy_style)
  show "truthy (hairStyle c)"
    using assms by (auto simp: in_domain_def hairStyles_def intro: truthy_style)
  show "truthy (eyeStyle c)"
    using assms by (auto simp: in_domain_def eyeStyles_def intro: truthy_style)
  show "truthy (eyebrowStyle c)"
    using assms by (auto simp: in_domain_def eyebrowStyles_def intro: truthy_style)
  show "truthy (noseStyle c)"
    using assms by (auto simp: in_domain_def noseStyles_def intro: truthy_style)
  show "truthy (mouthStyle c)"
    using assms by (auto simp: in_domain_def mouthStyles_def intro: truthy_style)
  show "truthy (headColor c)" "truthy (hairColor c)" "truthy (eyeColor c)"
    using assms by (auto simp: in_domain_def intro: truthy_hex)
  show "hasBlush c \<noteq> JUndefined" "hasBlush c \<noteq> JNull"
    using assms not_nullish_boolean[of "hasBlush c"] by (auto simp: in_domain_def)
qed

lemma getProp_toRecord:
  "getProp (toRecord now c) ''headShape'' = headShape c"
  "getProp (toRecord now c) ''headColor'' = headColor c"
  "getProp (toRecord now c) ''hairStyle'' = hairStyle c"
  "getProp (toRecord now c) ''hairColor'' = hairColor c"
  "getProp (toRecord now c) ''eyeStyle'' = eyeStyle c"
  "getProp (toRecord now c) ''eyeColor'' = eyeColor c"
  "getProp (toRecord now c) ''eyebrowStyle'' = eyebrowStyle c"
  "getProp (toRecord now c) ''noseStyle'' = noseStyle c"
  "getProp (toRecord now c) ''mouthStyle'' = mouthStyle c"
  "getProp (toRecord now c) ''hasBlush'' = hasBlush c"
  by (simp_all add: getProp_def toRecord_def configProps_def map_add_def)

lemma fromRecordWorld_eq: "fromRecordWorld r = fromRecord r"
  by (simp add: fromRecordWorld_def fromRecord_def)

lemma in_domain_sample: "in_domain sampleConfig"
  by (simp add: in_domain_def sampleConfig_def is_style_def is_hex_color_def is_boolean_def
      headShapes_def hairStyles_def eyeStyles_def eyebrowStyles_def noseStyles_def
      mouthStyles_def hex_digit_def)

lemma in_domain_default: "in_domain defaultConfig"
  by (simp add: in_domain_def defaultConfig_def is_style_def is_hex_color_def is_boolean_def
      headShapes_def hairStyles_def eyeStyles_def eyebrowStyles_def noseStyles_def
      mouthStyles_def hex_digit_def)

lemma toRecord_dom:
  "dom (toRecord now c) = insert ''$type'' (insert ''createdAt'' (set configKeys))"
  by (simp add: toRecord_def configProps_def configKeys_def insert_commute)

text \<open>
  C2. For every configuration whose ten fields hold values of their domains, decoding the
  payload that save builds from it gives the configuration back, field by field; this
  holds for the loader of the editor and for the loader of the 3D world, whatever the
  timestamp. The payload has the schema tag, the ten fields and the creation timestamp,
  and no other property.
\<close>

theorem codec_roundtrip:
  "in_domain c \<Longrightarrow>
     fromRecord (toRecord now c) = c \<and> fromRecordWorld (toRecord now c) = c \<and>
     dom (toRecord now c) = insert ''$type'' (insert ''createdAt'' (set configKeys))"
  using in_domain_truthy[of c]
  by (simp add: fromRecord_def fromRecordWorld_def getProp_toRecord js_or_def js_nullish_def
      toRecord_dom)

theorem codec_roundtrip_witness:
  "in_domain sampleConfig \<and>
   fromRecord (toRecord ''2024-01-01T00:00:00.000Z'' sampleConfig) = sampleConfig \<and>
   fromRecordWorld (toRecord ''2024-01-01T00:00:00.000Z'' sampleConfig) = sampleConfig"
  using codec_roundtrip[OF in_domain_sample, of "''2024-01-01T00:00:00.000Z''"] in_domain_sample
  by simp

lemma js_or_style:
  assumes "\<forall>v. r k = Some v \<longrightarrow> is_style styles v" and "is_style styles d"
  shows "is_style styles (js_or (getProp r k) d)"
  using assms by (cases "r k") (auto simp: js_or_def getProp_def)

lemma js_or_hex:
  assumes "\<forall>v. r k = Some v \<longrightarrow> is_hex_color v" and "is_hex_color d"
  shows "is_hex_color (js_or (getProp r k) d)"
  using assms by (cases "r k") (auto simp: js_or_def getProp_def)

lemma js_nullish_boolean:
  assumes "\<forall>v. r k = Some v \<longrightarrow> is_boolean v"
  shows "is_boolean (js_nullish (getProp r k) (JBool True))"
  using assms by (cases "r k") (auto simp: js_nullish_def getProp_def is_boolean_def)

lemma fromRecord_in_domain:
  assumes "\<forall>k \<in> set configKeys. \<forall>v. r k = Some v \<longrightarrow> fieldDomain k v"
  shows "in_domain (fromRecord r)"
proof -
  have d: "in_domain defaultConfig" by (rule in_domain_default)
  have "is_style headShapes (headShape (fromRecord r))"
    using assms d by (auto simp: fromRecord_def configKeys_def fieldDomain_def in_domain_def
        defaultConfig_def intro!: js_or_style)
  moreover have "is_style hairStyles (hairStyle (fromRecord r))"
    using assms d by (auto simp: fromRecord_def configKeys_def fieldDomain_def in_domain_def
        defaultConfig_def intro!: js_or_style)
  moreover have "is_style eyeStyles (eyeStyle (fromRecord r))"
    using assms d by (auto simp: fromRecord_def configKeys_def fieldDomain_def in_domain_def
        defaultConfig_def intro!: js_or_style)
  moreover have "is_style eyebrowStyles (eyebrowStyle (fromRecord r))"
    using assms d by (auto simp: fromRecord_def configKeys_def fieldDomain_def in_domain_def
        defaultConfig_def intro!: js_or_style)
  moreover have "is_style noseStyles (noseStyle (fromRecord r))"
    using assms d by (auto simp: fromRecord_def configKeys_def fieldDomain_def in_domain_def
        defaultConfig_def intro!: js_or_style)
  moreover have "is_style mouthStyles (mouthStyle (fromRecord r))"
    using assms d by (auto simp: fromRecord_def configKeys_def fieldDomain_def in_domain_def
        defaultConfig_def intro!: js_or_style)
  moreover have "is_hex_color (headColor (fromRecord r))"
    using assms d by (auto simp: fromRecord_def configKeys_def fieldDomain_def in_domain_def
        defaultConfig_def intro!: js_or_hex)
  moreover have "is_hex_color (hairColor (fromRecord r))"
    using assms d by (auto simp: fromRecord_def configKeys_def fieldDomain_def in_domain_def
        defaultConfig_def intro!: js_or_hex)
  moreover have "is_hex_color (eyeColor (fromRecord r))"
    using assms d by (auto simp: fromRecord_def configKeys_def fieldDomain_def in_domain_def
        defaultConfig_def intro!: js_or_hex)
  moreover have "is_boolean (hasBlush (fromRecord r))"
    using assms by (auto simp: fromRecord_def configKeys_def fieldDomain_def
        intro!: js_nullish_boolean)
  ultimately show ?thesis by (simp add: in_domain_def)
qed

lemma configKeys_iff:
  "k \<in> set configKeys \<longleftrightarrow>
     k = ''headShape'' \<or> k = ''headColor'' \<or> k = ''hairStyle'' \<or> k = ''hairColor'' \<or>
     k = ''eyeStyle'' \<or> k = ''eyeColor'' \<or> k = ''eyebrowStyle'' \<or> k = ''noseStyle'' \<or>
     k = ''mouthStyle'' \<or> k = ''hasBlush''"
  unfolding configKeys_def by (simp only: list.set insert_iff empty_iff simp_thms)

lemma fromRecord_missing:
  assumes "k \<in> set configKeys" and "r k = None"
  shows "configField (fromRecord r) k = configField defaultConfig k"
proof -
  have "k = ''headShape'' \<or> k = ''headColor'' \<or> k = ''hairStyle'' \<or> k = ''hairColor'' \<or>
     k = ''eyeStyle'' \<or> k = ''eyeColor'' \<or> k = ''eyebrowStyle'' \<or> k = ''noseStyle'' \<or>
     k = ''mouthStyle'' \<or> k = ''hasBlush''"
    using assms(1) by (simp only: configKeys_iff)
  then show ?thesis
    using assms(2)
    by (elim disjE)
       (simp_all add: configField_def configProps_def fromRecord_def defaultConfig_def
          getProp_def js_or_def js_nullish_def)
qed

lemma getProp_upd_foreign:
  "k \<notin> set configKeys \<Longrightarrow> k' \<in> set configKeys \<Longrightarrow> getProp (r(k \<mapsto> v)) k' = getProp r k'"
  by (auto simp: getProp_def)

lemma configKeys_mem:
  "''headShape'' \<in> set configKeys" "''headColor'' \<in> set configKeys"
  "''hairStyle'' \<in> set configKeys" "''hairColor'' \<in> set configKeys"
  "''eyeStyle'' \<in> set configKeys" "''eyeColor'' \<in> set configKeys"
  "''eyebrowStyle'' \<in> set configKeys" "''noseStyle'' \<in> set configKeys"
  "''mouthStyle'' \<in> set configKeys" "''hasBlush'' \<in> set configKeys"
  by (simp_all add: configKeys_def)

lemma fromRecord_foreign:
  assumes "k \<notin> set configKeys"
  shows "fromRecord (r(k \<mapsto> v)) = fromRecord r"
  unfolding fromRecord_def
  by (simp only: getProp_upd_foreign[OF assms] configKeys_mem)

lemma fromRecord_supplied:
  assumes "k \<in> set configKeys" and "r k = Some v"
  shows "configField (fromRecord r) k =
       (if k = ''hasBlush''
        then (if v = JUndefined \<or> v = JNull then JBool True else v)
        else (if truthy v then v else configField defaultConfig k))"
proof -
  have "k = ''headShape'' \<or> k = ''headColor'' \<or> k = ''hairStyle'' \<or> k = ''hairColor'' \<or>
     k = ''eyeStyle'' \<or> k = ''eyeColor'' \<or> k = ''eyebrowStyle'' \<or> k = ''noseStyle'' \<or>
     k = ''mouthStyle'' \<or> k = ''hasBlush''"
    using assms(1) by (simp only: configKeys_iff)
  then show ?thesis
    using assms(2)
    by (elim disjE)
       (simp_all add: configField_def configProps_def fromRecord_def defaultConfig_def
          getProp_def js_or_def js_nullish_def)
qed

text \<open>
  C3, as stated: the decoded configuration would be in the domain for every record. A
  record whose head shape is the unrecognised string \<^verbatim>\<open>'triangle'\<close> decodes to a
  configuration that keeps it.
\<close>

theorem default_filling_counterexample:
  "headShape (fromRecord partialRecord) = JStr ''triangle'' \<and>
   \<not> is_style headShapes (headShape (fromRecord partialRecord)) \<and>
   \<not> in_domain (fromRecord partialRecord)"
  by (simp add: fromRecord_def partialRecord_def getProp_def js_or_def in_domain_def
      is_style_def headShapes_def)

text \<open>
  C3, amended. For every record, in both loaders: each missing field gets its default;
  foreign fields are ignored; a supplied value is not checked against the domain: a falsy
  value of a string field and a null blush flag are replaced by the default, every other
  supplied value, recognised or not, is kept as it is. The result is in the domain when
  every supplied value of the ten fields is.
\<close>

theorem default_filling:
  "fromRecordWorld r = fromRecord r \<and>
   (\<forall>k \<in> set configKeys. r k = None \<longrightarrow>
      configField (fromRecord r) k = configField defaultConfig k) \<and>
   (\<forall>k v. k \<notin> set configKeys \<longrightarrow> fromRecord (r(k \<mapsto> v)) = fromRecord r) \<and>
   (\<forall>k \<in> set configKeys. \<forall>v. r k = Some v \<longrightarrow>
      configField (fromRecord r) k =
        (if k = ''hasBlush''
         then (if v = JUndefined \<or> v = JNull then JBool True else v)
         else (if truthy v then v else configField defaultConfig k))) \<and>
   ((\<forall>k \<in> set configKeys. \<forall>v. r k = Some v \<longrightarrow> fieldDomain k v) \<longrightarrow>
      in_domain (fromRecord r))"
proof (intro conjI ballI allI impI)
  show "fromRecordWorld r = fromRecord r"
    by (rule fromRecordWorld_eq)
next
  fix k assume "k \<in> set configKeys" and "r k = None"
  then show "configField (fromRecord r) k = configField defaultConfig k"
    by (rule fromRecord_missing)
next
  fix k v assume "k \<notin> set configKeys"
  then show "fromRecord (r(k \<mapsto> v)) = fromRecord r"
    by (rule fromRecord_foreign)
next
  fix k v assume "k \<in> set configKeys" and "r k = Some v"
  then show "configField (fromRecord r) k =
        (if k = ''hasBlush''
         then (if v = JUndefined \<or> v = JNull then JBool True else v)
         else (if truthy v then v else configField defaultConfig k))"
    by (rule fromRecord_supplied)
next
  assume "\<forall>k \<in> set configKeys. \<forall>v. r k = Some v \<longrightarrow> fieldDomain k v"
  then show "in_domain (fromRecord r)"
    by (rule fromRecord_in_domain)
qed

theorem default_filling_witness:
  "''headColor'' \<in> set configKeys \<and> partialRecord ''headColor'' = None \<and>
   configField (fromRecord partialRecord) ''headColor'' = JStr ''#ffccaa'' \<and>
   ''nickname'' \<notin> set configKeys \<and>
   fromRecord (ovalRecord(''nickname'' \<mapsto> JStr ''bob'')) = fromRecord ovalRecord \<and>
   ''headShape'' \<in> set configKeys \<and> partialRecord ''headShape'' = Some (JStr ''triangle'') \<and>
   configField (fromRecord partialRecord) ''headShape'' = JStr ''triangle'' \<and>
   in_domain (fromRecord ovalRecord)"
proof -
  have k1: "''headColor'' \<in> set configKeys" and k2: "''headShape'' \<in> set configKeys"
    and k3: "''nickname'' \<notin> set configKeys"
    by (simp_all add: configKeys_def)
  have missing: "partialRecord ''headColor'' = None"
    and supplied: "partialRecord ''headShape'' = Some (JStr ''triangle'')"
    by (simp_all add: partialRecord_def)
  have valid: "\<forall>k \<in> set configKeys. \<forall>v. ovalRecord k = Some v \<longrightarrow> fieldDomain k v"
    by (simp add: configKeys_def ovalRecord_def fieldDomain_def is_style_def headShapes_def)
  have dflt: "configField defaultConfig ''headColor'' = JStr ''#ffccaa''"
    by (simp add: configField_def configProps_def defaultConfig_def getProp_def)
  note p = default_filling[of partialRecord] and q = default_filling[of ovalRecord]
  have a: "configField (fromRecord partialRecord) ''headColor'' = JStr ''#ffccaa''"
    using p[THEN conjunct2, THEN conjunct1, rule_format, OF k1 missing] dflt by simp
  have b: "fromRecord (ovalRecord(''nickname'' \<mapsto> JStr ''bob'')) = fromRecord ovalRecord"
    using q[THEN conjunct2, THEN conjunct2, THEN conjunct1, rule_format, OF k3] .
  have c: "configField (fromRecord partialRecord) ''headShape'' = JStr ''triangle''"
    using p[THEN conjunct2, THEN conjunct2, THEN conjunct2, THEN conjunct1, rule_format,
        OF k2 supplied]
    by simp
  have d: "in_domain (fromRecord ovalRecord)"
    using q[THEN conjunct2, THEN conjunct2, THEN conjunct2, THEN conjunct2, THEN mp, OF valid] .
  show ?thesis
    using k1 k2 k3 missing supplied a b c d by (intro conjI)
qed



section \<open>Properties of the generators and the assembler\<close>

lemma clearChildren_Object3D: "clearChildren (Object3D k p cs) = Object3D k p []"
proof (induction cs)
  case Nil
  show ?case by (subst clearChildren.simps) simp
next
  case (Cons c cs)
  show ?case by (subst clearChildren.simps) (simp add: Cons.IH)
qed

lemma buildAvatar_Object3D:
  "buildAvatar config (Object3D k p cs) =
     Object3D k p
       ([createHead (headShape config) (headColor config),
         createHair (hairStyle config) (hairColor config),
         createNose (noseStyle config) (headColor config),
         createEyes (eyeStyle config) (eyeColor config),
         createEyebrows (eyebrowStyle config) (hairColor config),
         createMouth (mouthStyle config)] @
        (if truthy (hasBlush config) then [createBlush] else []))"
  by (simp add: buildAvatar_def clearChildren_Object3D Let_def)

text \<open>
  C1, as stated: an unrecognised hair style would give the sub-assembly of the default
  style \<^verbatim>\<open>'short'\<close>. It gives a group without children.
\<close>

theorem unknown_style_counterexample:
  "''mohawk'' \<notin> set hairStyles \<and>
   children (createHair (JStr ''mohawk'') (JStr ''#4a3728'')) = [] \<and>
   createHair (JStr ''mohawk'') (JStr ''#4a3728'') \<noteq> createHair (JStr ''short'') (JStr ''#4a3728'')"
  by (simp add: hairStyles_def createHair_def newGroup_def Let_def)

text \<open>
  C1, amended. For every style string outside the style set of its field, each generator
  returns a value (the functions are total): the head generator returns the mesh of the
  default shape \<^verbatim>\<open>'round'\<close>; the hair, eyebrow, nose, eye and mouth generators return an
  empty group.
\<close>

theorem unknown_style_fallback:
  "(s \<notin> set headShapes \<longrightarrow> createHead (JStr s) c = createHead (JStr ''round'') c) \<and>
   (s \<notin> set hairStyles \<longrightarrow> createHair (JStr s) c = newGroup) \<and>
   (s \<notin> set eyebrowStyles \<longrightarrow> createEyebrows (JStr s) c = newGroup) \<and>
   (s \<notin> set noseStyles \<longrightarrow> createNose (JStr s) c = newGroup) \<and>
   (s \<notin> set eyeStyles \<longrightarrow> createEyes (JStr s) c = newGroup) \<and>
   (s \<notin> set mouthStyles \<longrightarrow> createMouth (JStr s) = newGroup)"
proof (intro conjI impI)
  assume "s \<notin> set headShapes"
  then show "createHead (JStr s) c = createHead (JStr ''round'') c"
    by (simp add: createHead_def headShapes_def)
next
  assume "s \<notin> set hairStyles"
  then show "createHair (JStr s) c = newGroup"
    by (simp add: createHair_def hairStyles_def Let_def)
next
  assume "s \<notin> set eyebrowStyles"
  then show "createEyebrows (JStr s) c = newGroup"
    by (simp add: createEyebrows_def eyebrowStyles_def Let_def)
next
  assume "s \<notin> set noseStyles"
  then show "createNose (JStr s) c = newGroup"
    by (simp add: createNose_def noseStyles_def Let_def)
next
  assume "s \<notin> set eyeStyles"
  then show "createEyes (JStr s) c = newGroup"
    by (simp add: createEyes_def eyeStyles_def Let_def)
next
  assume "s \<notin> set mouthStyles"
  then show "createMouth (JStr s) = newGroup"
    by (simp add: createMouth_def mouthStyles_def Let_def)
qed

theorem unknown_style_fallback_witness:
  "''mohawk'' \<notin> set headShapes \<and>
   createHead (JStr ''mohawk'') (JStr ''#ffccaa'') = createHead (JStr ''round'') (JStr ''#ffccaa'') \<and>
   ''mohawk'' \<notin> set hairStyles \<and> createHair (JStr ''mohawk'') (JStr ''#ffccaa'') = newGroup \<and>
   ''mohawk'' \<notin> set eyebrowStyles \<and> createEyebrows (JStr ''mohawk'') (JStr ''#ffccaa'') = newGroup \<and>
   ''mohawk'' \<notin> set noseStyles \<and> createNose (JStr ''mohawk'') (JStr ''#ffccaa'') = newGroup \<and>
   ''mohawk'' \<notin> set eyeStyles \<and> createEyes (JStr ''mohawk'') (JStr ''#ffccaa'') = newGroup \<and>
   ''mohawk'' \<notin> set mouthStyles \<and> createMouth (JStr ''mohawk'') = newGroup"
proof -
  have out: "''mohawk'' \<notin> set headShapes" "''mohawk'' \<notin> set hairStyles"
    "''mohawk'' \<notin> set eyebrowStyles" "''mohawk'' \<notin> set noseStyles"
    "''mohawk'' \<notin> set eyeStyles" "''mohawk'' \<notin> set mouthStyles"
    by (simp_all add: headShapes_def hairStyles_def eyebrowStyles_def noseStyles_def
        eyeStyles_def mouthStyles_def)
  show ?thesis
    using unknown_style_fallback[of "''mohawk''" "JStr ''#ffccaa''"] out by simp
qed

text \<open>
  C4. Assembling twice with the same configuration gives the same hierarchy as
  assembling once, and whatever an earlier run (with any configuration) left under the
  avatar root is gone: the children are those of a run on an empty root.
\<close>

theorem buildAvatar_idempotent:
  "buildAvatar config (buildAvatar config g) = buildAvatar config g \<and>
   children (buildAvatar config (buildAvatar config' g)) = children (buildAvatar config newGroup)"
  by (cases g) (simp add: buildAvatar_Object3D newGroup_def)

text \<open>
  C8, as stated: an empty sub-assembly would not be attached. With hair style
  \<^verbatim>\<open>'none'\<close> (and no blush) the root still gets six children, the second of which is
  the empty hair group.
\<close>

theorem assemble_counterexample:
  "hairStyle sampleConfig = JStr ''none'' \<and>
   children (createHair (hairStyle sampleConfig) (hairColor sampleConfig)) = [] \<and>
   length (children (buildAvatar sampleConfig newGroup)) = 6 \<and>
   children (buildAvatar sampleConfig newGroup) ! 1 =
     createHair (hairStyle sampleConfig) (hairColor sampleConfig)"
  by (simp add: newGroup_def buildAvatar_Object3D)
     (simp add: sampleConfig_def createHair_def newGroup_def)

text \<open>
  C8, amended. For every configuration and every prior content of the root, the
  assembler leaves under the root exactly: the head, the hair group, the nose group, the
  eye group, the eyebrow group and the mouth group, in this order and each attached
  whether or not it is empty, followed by the blush group when the blush flag is truthy.
\<close>

theorem assemble_children:
  "children (buildAvatar config g) =
     [createHead (headShape config) (headColor config),
      createHair (hairStyle config) (hairColor config),
      createNose (noseStyle config) (headColor config),
      createEyes (eyeStyle config) (eyeColor config),
      createEyebrows (eyebrowStyle config) (hairColor config),
      createMouth (mouthStyle config)] @
     (if truthy (hasBlush config) then [createBlush] else [])"
  by (cases g) (simp add: buildAvatar_Object3D)

section \<open>Properties of the square head's inflation\<close>

lemma upt3: "[0..<Suc (Suc (Suc 0))] = [0, Suc 0, Suc (Suc 0)]"
  by (simp add: upt_rec)

lemma squareBoxPositions_eq:
  "squareBoxPositions =
    [(0.8, 0.9, 0.75), (0.8, 0.9, 0), (0.8, 0.9, - 0.75),
     (0.8, 0, 0.75), (0.8, 0, 0), (0.8, 0, - 0.75),
     (0.8, - 0.9, 0.75), (0.8, - 0.9, 0), (0.8, - 0.9, - 0.75),
     (- 0.8, 0.9, - 0.75), (- 0.8, 0.9, 0), (- 0.8, 0.9, 0.75),
     (- 0.8, 0, - 0.75), (- 0.8, 0, 0), (- 0.8, 0, 0.75),
     (- 0.8, - 0.9, - 0.75), (- 0.8, - 0.9, 0), (- 0.8, - 0.9, 0.75),
     (- 0.8, 0.9, - 0.75), (0, 0.9, - 0.75), (0.8, 0.9, - 0.75),
     (- 0.8, 0.9, 0), (0, 0.9, 0), (0.8, 0.9, 0),
     (- 0.8, 0.9, 0.75), (0, 0.9, 0.75), (0.8, 0.9, 0.75),
     (- 0.8, - 0.9, 0.75), (0, - 0.9, 0.75), (0.8, - 0.9, 0.75),
     (- 0.8, - 0.9, 0), (0, - 0.9, 0), (0.8, - 0.9, 0),
     (- 0.8, - 0.9, - 0.75), (0, - 0.9, - 0.75), (0.8, - 0.9, - 0.75),
     (- 0.8, 0.9, 0.75), (0, 0.9, 0.75), (0.8, 0.9, 0.75),
     (- 0.8, 0, 0.75), (0, 0, 0.75), (0.8, 0, 0.75),
     (- 0.8, - 0.9, 0.75), (0, - 0.9, 0.75), (0.8, - 0.9, 0.75),
     (0.8, 0.9, - 0.75), (0, 0.9, - 0.75), (- 0.8, 0.9, - 0.75),
     (0.8, 0, - 0.75), (0, 0, - 0.75), (- 0.8, 0, - 0.75),
     (0.8, - 0.9, - 0.75), (0, - 0.9, - 0.75), (- 0.8, - 0.9, - 0.75)]"
  by (simp add: squareBoxPositions_def boxPositions_def buildPlane_def eval_nat_numeral upt3 del: upt_Suc)

lemma inflateFrom_take_drop:
  "inflateFrom i ps = take i ps @ map inflateVertex (drop i ps)"
proof (induction i ps rule: inflateFrom.induct)
  case (1 i positions)
  show ?case
  proof (cases "i < length positions")
    case True
    have "inflateFrom i positions = inflateFrom (i + 1) (positions[i := inflateVertex (positions ! i)])"
      using True by (subst inflateFrom.simps) simp
    also have "\<dots> = take (i + 1) (positions[i := inflateVertex (positions ! i)]) @
        map inflateVertex (drop (i + 1) (positions[i := inflateVertex (positions ! i)]))"
      using 1 True by simp
    also have "\<dots> = take i positions @ map inflateVertex (drop i positions)"
      using True by (simp add: take_Suc_conv_app_nth Cons_nth_drop_Suc[symmetric])
    finally show ?thesis .
  next
    case False
    then show ?thesis by (subst inflateFrom.simps) simp
  qed
qed

lemma inflateFrom_0: "inflateFrom 0 ps = map inflateVertex ps"
  by (simp add: inflateFrom_take_drop)


lemma box_vertex_cases:
  assumes "v \<in> set squareBoxPositions"
  shows "(isFaceCenter v \<and> 0.5625 \<le> len2 v \<and> len2 v < 1) \<or>
         (\<not> isFaceCenter v \<and> 1 < len2 v)"
  using assms unfolding squareBoxPositions_eq by auto

lemma square_of_abs: "\<bar>x\<bar> = a \<Longrightarrow> x * x = a * (a::real)"
  using abs_mult_self_eq[of x] by simp

lemma corner_len2: "isCorner v \<Longrightarrow> len2 v = 2.0125"
proof (cases v)
  case (fields x y z)
  assume "isCorner v"
  then have ax: "\<bar>x\<bar> = 0.8" and ay: "\<bar>y\<bar> = 0.9" and az: "\<bar>z\<bar> = 0.75"
    using fields by simp_all
  have "x * x = 0.8 * 0.8" "y * y = 0.9 * 0.9" "z * z = 0.75 * 0.75"
    by (rule square_of_abs[OF ax] square_of_abs[OF ay] square_of_abs[OF az])+
  then have "len2 (x, y, z) = 0.8 * 0.8 + 0.9 * 0.9 + 0.75 * 0.75"
    by (simp only: len2.simps)
  then show ?thesis using fields by simp
qed

lemma vlength_len2: "vlength v = sqrt (len2 v)"
  by (cases v) simp

lemma len2_nonneg: "0 \<le> len2 v"
  by (cases v) simp

lemma vlength_scale: "vlength (k * x, k * y, k * z) = \<bar>k\<bar> * vlength (x, y, z)"
proof -
  have "k * x * (k * x) + k * y * (k * y) + k * z * (k * z) = k\<^sup>2 * (x * x + y * y + z * z)"
    by (simp add: power2_eq_square algebra_simps)
  then show ?thesis by (simp add: real_sqrt_mult)
qed

lemma inflateVertex_scale:
  "inflateVertex (x, y, z) =
     ((0.85 + 0.15 / vlength (x, y, z)) * x,
      (0.85 + 0.15 / vlength (x, y, z)) * y,
      (0.85 + 0.15 / vlength (x, y, z)) * z)"
  by (simp add: Let_def algebra_simps)

lemma vlength_inflate:
  assumes "0 < len2 v"
  shows "vlength (inflateVertex v) = 0.85 * vlength v + 0.15"
proof (cases v)
  case (fields x y z)
  define l where "l = vlength (x, y, z)"
  have lpos: "0 < l" using assms fields by (simp add: l_def)
  define k where "k = 0.85 + 0.15 / l"
  have kpos: "0 < k" using lpos by (simp add: k_def add_pos_pos)
  have "inflateVertex v = (k * x, k * y, k * z)"
    unfolding fields inflateVertex_scale k_def l_def ..
  then have "vlength (inflateVertex v) = \<bar>k\<bar> * l"
    by (simp only: vlength_scale l_def)
  also have "\<dots> = k * l" using kpos by simp
  also have "\<dots> = 0.85 * l + 0.15"
    using lpos by (simp add: k_def algebra_simps)
  finally show ?thesis by (simp add: fields l_def)
qed

lemma displacement_eq:
  assumes "0 < len2 v"
  shows "displacement v = 0.15 * \<bar>1 - vlength v\<bar>"
proof (cases v)
  case (fields x y z)
  define l where "l = vlength (x, y, z)"
  have lpos: "0 < l" using assms fields by (simp add: l_def)
  define k where "k = 0.85 + 0.15 / l"
  have inf: "inflateVertex (x, y, z) = (k * x, k * y, k * z)"
    unfolding inflateVertex_scale k_def l_def ..
  have "displacement v = vlength (k * x - x, k * y - y, k * z - z)"
    unfolding fields displacement.simps inf by simp
  also have "\<dots> = vlength ((k - 1) * x, (k - 1) * y, (k - 1) * z)"
    by (simp only: left_diff_distrib mult_1)
  also have "\<dots> = \<bar>k - 1\<bar> * l"
    by (simp only: vlength_scale l_def)
  also have "\<dots> = \<bar>(k - 1) * l\<bar>"
    using lpos by (simp add: abs_mult)
  finally have d: "displacement v = \<bar>(k - 1) * l\<bar>" .
  have "(k - 1) * l = 0.15 * (1 - l)"
    using lpos by (simp add: k_def algebra_simps)
  then have "displacement v = \<bar>0.15 * (1 - l)\<bar>"
    using d by simp
  also have "\<dots> = 0.15 * \<bar>1 - l\<bar>"
    by (simp only: abs_mult) simp
  finally show ?thesis unfolding l_def fields .
qed

lemma box_vertex_pos: "v \<in> set squareBoxPositions \<Longrightarrow> 0 < len2 v"
  using box_vertex_cases[of v] by auto

lemma in_box1: "(0.8, 0, 0) \<in> set squareBoxPositions"
  unfolding squareBoxPositions_eq by simp

text \<open>
  C5, as stated: every vertex of the square head would move closer to the origin. The
  centre of the +x face, at distance 0.8, moves away from it.
\<close>

theorem square_head_counterexample:
  "(0.8, 0, 0) \<in> set squareBoxPositions \<and>
   vlength (0.8, 0, 0) < vlength (inflateVertex (0.8, 0, 0))"
proof -
  have "vlength (0.8, 0, 0) = 0.8"
    using real_sqrt_abs2[of "0.8"] by simp
  moreover have "vlength (inflateVertex (0.8, 0, 0)) = 0.85 * vlength (0.8, 0, 0) + 0.15"
    by (rule vlength_inflate) simp
  ultimately show ?thesis using in_box1 by simp
qed


text \<open>
  C5, amended. The square head is the base box with every vertex \<open>v\<close> replaced by its
  inflated position, whose distance from the origin is \<open>0.85 * |v| + 0.15\<close>: the
  vertex moves 15% of the way towards the unit sphere. The six face centres, nearer than
  1, move away from the origin; all other vertices (corners and edge midpoints), farther
  than 1, move closer; every corner is displaced by more than every face centre.
\<close>

theorem square_head_inflation:
  "createHead (JStr ''square'') c =
     newMesh (SetPositions (BoxGeometry [1.6, 1.8, 1.5, 2, 2, 2])
                (map inflateVertex squareBoxPositions))
       (createMaterial (Color c) None) \<and>
   (\<forall>v \<in> set squareBoxPositions.
      vlength (inflateVertex v) = 0.85 * vlength v + 0.15 \<and>
      (isFaceCenter v \<longrightarrow> vlength v < vlength (inflateVertex v)) \<and>
      (\<not> isFaceCenter v \<longrightarrow> vlength (inflateVertex v) < vlength v) \<and>
      (\<forall>f \<in> set squareBoxPositions.
         isCorner v \<and> isFaceCenter f \<longrightarrow> displacement f < displacement v))"
proof (intro conjI ballI impI)
  show "createHead (JStr ''square'') c =
     newMesh (SetPositions (BoxGeometry [1.6, 1.8, 1.5, 2, 2, 2])
                (map inflateVertex squareBoxPositions))
       (createMaterial (Color c) None)"
    by (simp add: createHead_def inflateFrom_0)
next
  fix v assume v: "v \<in> set squareBoxPositions"
  show "vlength (inflateVertex v) = 0.85 * vlength v + 0.15"
    using vlength_inflate[OF box_vertex_pos[OF v]] .
next
  fix v assume v: "v \<in> set squareBoxPositions" and fc: "isFaceCenter v"
  have "len2 v < 1" using box_vertex_cases[OF v] fc by auto
  then have "vlength v < 1" by (simp add: vlength_len2)
  then show "vlength v < vlength (inflateVertex v)"
    using vlength_inflate[OF box_vertex_pos[OF v]] by simp
next
  fix v assume v: "v \<in> set squareBoxPositions" and fc: "\<not> isFaceCenter v"
  have "1 < len2 v" using box_vertex_cases[OF v] fc by auto
  then have "1 < vlength v" by (simp add: vlength_len2)
  then show "vlength (inflateVertex v) < vlength v"
    using vlength_inflate[OF box_vertex_pos[OF v]] by simp
next
  fix v f
  assume v: "v \<in> set squareBoxPositions" and f: "f \<in> set squareBoxPositions"
    and cf: "isCorner v \<and> isFaceCenter f"
  have "len2 v = 2.0125" using cf corner_len2 by simp
  then have "(1.25)\<^sup>2 < len2 v" by (simp add: power2_eq_square)
  then have lv: "1.25 < vlength v"
    unfolding vlength_len2 by (rule real_less_rsqrt)
  have f2: "(0.75)\<^sup>2 \<le> len2 f" and f1: "len2 f < 1"
    using box_vertex_cases[OF f] cf by (auto simp: power2_eq_square)
  have "0.75 \<le> sqrt (len2 f)"
    using f2 by (rule real_le_rsqrt)
  moreover have "sqrt (len2 f) < 1"
    using f1 by simp
  ultimately have lf: "0.75 \<le> vlength f" "vlength f < 1"
    by (simp_all only: vlength_len2)
  show "displacement f < displacement v"
    using lv lf displacement_eq[OF box_vertex_pos[OF v]] displacement_eq[OF box_vertex_pos[OF f]]
    by simp
qed

theorem square_head_inflation_witness:
  "(0.8, 0.9, 0.75) \<in> set squareBoxPositions \<and> (0, 0.9, 0) \<in> set squareBoxPositions \<and>
   isCorner (0.8, 0.9, 0.75) \<and> isFaceCenter (0, 0.9, 0) \<and>
   vlength (inflateVertex (0.8, 0.9, 0.75)) < vlength (0.8, 0.9, 0.75) \<and>
   vlength (0, 0.9, 0) < vlength (inflateVertex (0, 0.9, 0)) \<and>
   displacement (0, 0.9, 0) < displacement (0.8, 0.9, 0.75)"
proof -
  have c: "(0.8, 0.9, 0.75) \<in> set squareBoxPositions"
    and f: "(0, 0.9, 0) \<in> set squareBoxPositions"
    unfolding squareBoxPositions_eq by simp_all
  have ic: "isCorner (0.8, 0.9, 0.75)" and nf: "\<not> isFaceCenter (0.8, 0.9, 0.75)"
    and fc: "isFaceCenter (0, 0.9, 0)"
    by simp_all
  note vs = square_head_inflation[of JNull, THEN conjunct2]
  have "vlength (inflateVertex (0.8, 0.9, 0.75)) < vlength (0.8, 0.9, 0.75)"
    using vs[THEN bspec, OF c, THEN conjunct2, THEN conjunct2, THEN conjunct1, THEN mp, OF nf] .
  moreover have "vlength (0, 0.9, 0) < vlength (inflateVertex (0, 0.9, 0))"
    using vs[THEN bspec, OF f, THEN conjunct2, THEN conjunct1, THEN mp, OF fc] .
  moreover have "displacement (0, 0.9, 0) < displacement (0.8, 0.9, 0.75)"
    using vs[THEN bspec, OF c, THEN conjunct2, THEN conjunct2, THEN conjunct2, THEN bspec, OF f,
        THEN mp, OF conjI[OF ic fc]] .
  ultimately show ?thesis using c f ic fc by (intro conjI)
qed

section \<open>The editor's avatar against the 3D world's\<close>

lemma objKind_createHair: "objKind (createHair style c) = Group"
  by (simp add: createHair_def newGroup_def spikePositions_def Let_def)

lemma buildPlayerAvatar_Object3D:
  "buildPlayerAvatar config (Object3D k p cs) =
     Object3D k p [playerAvatarGroup config (Object3D k p cs)]"
  by (simp add: playerAvatarGroup_def buildPlayerAvatar_def clearChildren_Object3D Let_def)

lemma playerAvatarGroup_children:
  "\<exists>head body rest.
     children (playerAvatarGroup config pl) = head # body # rest \<and>
     objKind head =
       Mesh (if headShape config = JStr ''oval'' then GeomScale (IcosahedronGeometry [1, 1]) 0.85 1.1 0.9
             else if headShape config = JStr ''square'' then BoxGeometry [1.6, 1.8, 1.5, 2, 2, 2]
             else IcosahedronGeometry [1, 1])
            (createMaterialWorld (Color (headColor config))) \<and>
     objKind body = Mesh (CapsuleGeometry [0.4, 0.8, 4, 8]) (createMaterialWorld (Color (headColor config)))"
  by (cases pl)
     (simp add: playerAvatarGroup_def buildPlayerAvatar_def clearChildren_Object3D Let_def
        newGroup_def newMesh_def setScalar_def setPositionY_def setCastShadow_def setPosition_def
        setRotationY_def defaultProps_def)

lemma objKind_createHead:
  "objKind (createHead shape c) =
     Mesh (if shape = JStr ''round'' then IcosahedronGeometry [1, 1]
           else if shape = JStr ''oval'' then GeomScale (IcosahedronGeometry [1, 1]) 0.85 1.1 0.9
           else if shape = JStr ''square'' then
             SetPositions (BoxGeometry [1.6, 1.8, 1.5, 2, 2, 2]) (map inflateVertex squareBoxPositions)
           else IcosahedronGeometry [1, 1])
          (createMaterial (Color c) None)"
  by (simp add: createHead_def newMesh_def inflateFrom_0)

lemma createMaterial_World: "createMaterial c None = createMaterialWorld c"
  by (simp add: createMaterial_def createMaterialWorld_def)

text \<open>
  C9, as stated: both front ends would build the same avatar. For the default
  configuration the 3D world's avatar group and the editor's root have different children.
\<close>

theorem front_ends_counterexample:
  "children (playerAvatarGroup defaultConfig newGroup) \<noteq> children (buildAvatar defaultConfig newGroup)"
proof
  assume eq: "children (playerAvatarGroup defaultConfig newGroup) = children (buildAvatar defaultConfig newGroup)"
  obtain head body rest where
    ch: "children (playerAvatarGroup defaultConfig newGroup) = head # body # rest"
    and body: "objKind body = Mesh (CapsuleGeometry [0.4, 0.8, 4, 8])
        (createMaterialWorld (Color (headColor defaultConfig)))"
    using playerAvatarGroup_children[of defaultConfig newGroup] by blast
  have "body = (head # body # rest) ! 1"
    by simp
  also have "\<dots> = children (buildAvatar defaultConfig newGroup) ! 1"
    using eq ch by (simp only:)
  also have "\<dots> = createHair (hairStyle defaultConfig) (hairColor defaultConfig)"
    by (simp add: newGroup_def buildAvatar_Object3D)
  finally show False
    using body objKind_createHair by simp
qed

lemma objKind_generators:
  "objKind (createNose style c) = Group"
  "objKind (createEyes style c) = Group"
  "objKind (createEyebrows style c) = Group"
  "objKind (createMouth style) = Group"
  by (simp_all add: createNose_def createEyes_def createEyebrows_def createMouth_def
      newGroup_def Let_def)

lemma playerAvatarGroup_eq:
  "playerAvatarGroup config pl =
     Object3D Group
       \<lparr> position = (0, 1.2, 0), rotation = (0, 0, 0), scale = (0.6, 0.6, 0.6),
         castShadow = False \<rparr>
       ([meshNode
           (if headShape config = JStr ''oval'' then GeomScale (IcosahedronGeometry [1, 1]) 0.85 1.1 0.9
            else if headShape config = JStr ''square'' then BoxGeometry [1.6, 1.8, 1.5, 2, 2, 2]
            else IcosahedronGeometry [1, 1])
           (createMaterialWorld (Color (headColor config))) (0, 0, 0) (0, 0, 0) True,
         meshNode (CapsuleGeometry [0.4, 0.8, 4, 8])
           (createMaterialWorld (Color (headColor config))) (0, - 1.4, 0) (0, 0, 0) True] @
        (if hairStyle config = JStr ''none'' then []
         else if hairStyle config = JStr ''spiky'' then
           [meshNode (ConeGeometry [0.15, 0.5, 4])
              (createMaterialWorld (Color (hairColor config))) (0, 1.1, 0) (0, 0, 0) True,
            meshNode (ConeGeometry [0.15, 0.5, 4])
              (createMaterialWorld (Color (hairColor config))) (0.3, 1.0, 0.1) (0, 0, 0) True,
            meshNode (ConeGeometry [0.15, 0.5, 4])
              (createMaterialWorld (Color (hairColor config))) (- 0.3, 1.0, 0.1) (0, 0, 0) True]
         else
           [meshNode (SphereGeometry [1.05, 8, 6, 0, pi * 2, 0, pi * 0.45])
              (createMaterialWorld (Color (hairColor config))) (0, 0.15, 0) (0, 0, 0) True]) @
        [meshNode (SphereGeometry [0.08, 8, 6])
           (createMaterialWorld (Color (eyeColor config))) (- 0.3, 0.15, 0.85) (0, 0, 0) False,
         meshNode (SphereGeometry [0.08, 8, 6])
           (createMaterialWorld (Color (eyeColor config))) (0.3, 0.15, 0.85) (0, 0, 0) False] @
        (if truthy (hasBlush config) then
           [meshNode (CircleGeometry [0.1, 6])
              \<lparr> color = Color (JNum 16755370), flatShading = False, transparent = Some True,
                opacity = Some 0.6 \<rparr>
              (- 0.5, - 0.05, 0.75) (0, - 0.4, 0) False,
            meshNode (CircleGeometry [0.1, 6])
              \<lparr> color = Color (JNum 16755370), flatShading = False, transparent = Some True,
                opacity = Some 0.6 \<rparr>
              (0.5, - 0.05, 0.75) (0, 0.4, 0) False]
         else []))"
  by (cases pl)
     (simp add: playerAvatarGroup_def buildPlayerAvatar_def clearChildren_Object3D Let_def
        newGroup_def newMesh_def meshNode_def setScalar_def setPositionY_def setCastShadow_def
        setPosition_def setRotationY_def defaultProps_def)

lemma playerAvatarGroup_meshes:
  assumes "n \<in> set (children (playerAvatarGroup config pl))"
  shows "objKind n \<noteq> Group \<and> children n = []"
  using assms unfolding playerAvatarGroup_eq
  by (auto simp: meshNode_def split: if_splits)

text \<open>
  C9, amended. The two front ends build different hierarchies for every configuration.
  The 3D world puts a single avatar group under the player, raised to 1.2 and scaled by
  0.6, whose children are exactly, in this order: the head mesh, a body capsule, the hair
  (nothing for \<^verbatim>\<open>'none'\<close>, three cones for \<^verbatim>\<open>'spiky'\<close>, one cap for every other style), two dot
  eyes at x = -0.3 and x = 0.3, and two blush circles at x = -0.5 and x = 0.5 when the
  blush flag is truthy. All of them are meshes without children, attached directly; the
  editor's nose, eyebrow and mouth groups are not among them, and the children are never
  those of the editor's root. The head mesh agrees with the editor's in geometry and
  material when the head shape is not \<^verbatim>\<open>'square'\<close>; for \<^verbatim>\<open>'square'\<close> the 3D world uses the plain
  box and the editor the inflated one.
\<close>

theorem front_ends_differ:
  "children (buildPlayerAvatar config pl) = [playerAvatarGroup config pl] \<and>
   playerAvatarGroup config pl =
     Object3D Group
       \<lparr> position = (0, 1.2, 0), rotation = (0, 0, 0), scale = (0.6, 0.6, 0.6),
         castShadow = False \<rparr>
       ([meshNode
           (if headShape config = JStr ''oval'' then GeomScale (IcosahedronGeometry [1, 1]) 0.85 1.1 0.9
            else if headShape config = JStr ''square'' then BoxGeometry [1.6, 1.8, 1.5, 2, 2, 2]
            else IcosahedronGeometry [1, 1])
           (createMaterialWorld (Color (headColor config))) (0, 0, 0) (0, 0, 0) True,
         meshNode (CapsuleGeometry [0.4, 0.8, 4, 8])
           (createMaterialWorld (Color (headColor config))) (0, - 1.4, 0) (0, 0, 0) True] @
        (if hairStyle config = JStr ''none'' then []
         else if hairStyle config = JStr ''spiky'' then
           [meshNode (ConeGeometry [0.15, 0.5, 4])
              (createMaterialWorld (Color (hairColor config))) (0, 1.1, 0) (0, 0, 0) True,
            meshNode (ConeGeometry [0.15, 0.5, 4])
              (createMaterialWorld (Color (hairColor config))) (0.3, 1.0, 0.1) (0, 0, 0) True,
            meshNode (ConeGeometry [0.15, 0.5, 4])
              (createMaterialWorld (Color (hairColor config))) (- 0.3, 1.0, 0.1) (0, 0, 0) True]
         else
           [meshNode (SphereGeometry [1.05, 8, 6, 0, pi * 2, 0, pi * 0.45])
              (createMaterialWorld (Color (hairColor config))) (0, 0.15, 0) (0, 0, 0) True]) @
        [meshNode (SphereGeometry [0.08, 8, 6])
           (createMaterialWorld (Color (eyeColor config))) (- 0.3, 0.15, 0.85) (0, 0, 0) False,
         meshNode (SphereGeometry [0.08, 8, 6])
           (createMaterialWorld (Color (eyeColor config))) (0.3, 0.15, 0.85) (0, 0, 0) False] @
        (if truthy (hasBlush config) then
           [meshNode (CircleGeometry [0.1, 6])
              \<lparr> color = Color (JNum 16755370), flatShading = False, transparent = Some True,
                opacity = Some 0.6 \<rparr>
              (- 0.5, - 0.05, 0.75) (0, - 0.4, 0) False,
            meshNode (CircleGeometry [0.1, 6])
              \<lparr> color = Color (JNum 16755370), flatShading = False, transparent = Some True,
                opacity = Some 0.6 \<rparr>
              (0.5, - 0.05, 0.75) (0, 0.4, 0) False]
         else [])) \<and>
   (\<forall>n \<in> set (children (playerAvatarGroup config pl)). objKind n \<noteq> Group \<and> children n = []) \<and>
   createNose (noseStyle config) (headColor config) \<notin> set (children (playerAvatarGroup config pl)) \<and>
   createEyebrows (eyebrowStyle config) (hairColor config) \<notin>
     set (children (playerAvatarGroup config pl)) \<and>
   createMouth (mouthStyle config) \<notin> set (children (playerAvatarGroup config pl)) \<and>
   children (playerAvatarGroup config pl) \<noteq> children (buildAvatar config g) \<and>
   (headShape config \<noteq> JStr ''square'' \<longrightarrow>
      objKind (hd (children (playerAvatarGroup config pl))) =
      objKind (hd (children (buildAvatar config g)))) \<and>
   (headShape config = JStr ''square'' \<longrightarrow>
      objKind (hd (children (playerAvatarGroup config pl))) =
        Mesh (BoxGeometry [1.6, 1.8, 1.5, 2, 2, 2]) (createMaterial (Color (headColor config)) None) \<and>
      objKind (hd (children (buildAvatar config g))) =
        Mesh (SetPositions (BoxGeometry [1.6, 1.8, 1.5, 2, 2, 2]) (map inflateVertex squareBoxPositions))
          (createMaterial (Color (headColor config)) None))"
proof -
  obtain head body rest where
    ch: "children (playerAvatarGroup config pl) = head # body # rest"
    and head: "objKind head =
       Mesh (if headShape config = JStr ''oval'' then GeomScale (IcosahedronGeometry [1, 1]) 0.85 1.1 0.9
             else if headShape config = JStr ''square'' then BoxGeometry [1.6, 1.8, 1.5, 2, 2, 2]
             else IcosahedronGeometry [1, 1])
            (createMaterialWorld (Color (headColor config)))"
    and body: "objKind body = Mesh (CapsuleGeometry [0.4, 0.8, 4, 8])
        (createMaterialWorld (Color (headColor config)))"
    using playerAvatarGroup_children[of config pl] by blast
  obtain k p cs where g: "g = Object3D k p cs" by (cases g)
  have ed: "children (buildAvatar config g) =
      createHead (headShape config) (headColor config) #
      createHair (hairStyle config) (hairColor config) #
      ([createNose (noseStyle config) (headColor config),
        createEyes (eyeStyle config) (eyeColor config),
        createEyebrows (eyebrowStyle config) (hairColor config),
        createMouth (mouthStyle config)] @
       (if truthy (hasBlush config) then [createBlush] else []))"
    by (simp add: g buildAvatar_Object3D)
  have one: "children (buildPlayerAvatar config pl) = [playerAvatarGroup config pl]"
    by (cases pl) (simp add: buildPlayerAvatar_Object3D)
  have meshes: "\<forall>n \<in> set (children (playerAvatarGroup config pl)).
      objKind n \<noteq> Group \<and> children n = []"
    using playerAvatarGroup_meshes by blast
  have nose: "createNose (noseStyle config) (headColor config) \<notin>
      set (children (playerAvatarGroup config pl))"
    using meshes objKind_generators(1) by blast
  have brows: "createEyebrows (eyebrowStyle config) (hairColor config) \<notin>
      set (children (playerAvatarGroup config pl))"
    using meshes objKind_generators(3) by blast
  have mouth: "createMouth (mouthStyle config) \<notin> set (children (playerAvatarGroup config pl))"
    using meshes objKind_generators(4) by blast
  have differ: "children (playerAvatarGroup config pl) \<noteq> children (buildAvatar config g)"
  proof
    assume "children (playerAvatarGroup config pl) = children (buildAvatar config g)"
    then have "body = createHair (hairStyle config) (hairColor config)"
      unfolding ch ed by simp
    then show False using body objKind_createHair by simp
  qed
  have hd_world: "objKind (hd (children (playerAvatarGroup config pl))) = objKind head"
    by (simp add: ch)
  have hd_editor: "objKind (hd (children (buildAvatar config g))) =
      objKind (createHead (headShape config) (headColor config))"
    by (simp add: ed)
  have same: "headShape config \<noteq> JStr ''square'' \<longrightarrow>
      objKind (hd (children (playerAvatarGroup config pl))) =
      objKind (hd (children (buildAvatar config g)))"
    unfolding hd_world hd_editor head objKind_createHead createMaterial_World by simp
  have square: "headShape config = JStr ''square'' \<longrightarrow>
      objKind (hd (children (playerAvatarGroup config pl))) =
        Mesh (BoxGeometry [1.6, 1.8, 1.5, 2, 2, 2]) (createMaterial (Color (headColor config)) None) \<and>
      objKind (hd (children (buildAvatar config g))) =
        Mesh (SetPositions (BoxGeometry [1.6, 1.8, 1.5, 2, 2, 2]) (map inflateVertex squareBoxPositions))
          (createMaterial (Color (headColor config)) None)"
    unfolding hd_world hd_editor head objKind_createHead createMaterial_World by simp
  show ?thesis
    using one playerAvatarGroup_eq[of config pl] meshes nose brows mouth differ same square
    by (intro conjI)
qed

theorem front_ends_differ_witness:
  "headShape defaultConfig \<noteq> JStr ''square'' \<and>
   objKind (hd (children (playerAvatarGroup defaultConfig newGroup))) =
     objKind (hd (children (buildAvatar defaultConfig newGroup))) \<and>
   headShape sampleConfig = JStr ''square'' \<and>
   objKind (hd (children (playerAvatarGroup sampleConfig newGroup))) =
     Mesh (BoxGeometry [1.6, 1.8, 1.5, 2, 2, 2]) (createMaterial (Color (headColor sampleConfig)) None) \<and>
   objKind (hd (children (buildAvatar sampleConfig newGroup))) =
     Mesh (SetPositions (BoxGeometry [1.6, 1.8, 1.5, 2, 2, 2]) (map inflateVertex squareBoxPositions))
       (createMaterial (Color (headColor sampleConfig)) None) \<and>
   children (playerAvatarGroup sampleConfig newGroup) =
     [meshNode (BoxGeometry [1.6, 1.8, 1.5, 2, 2, 2])
        (createMaterialWorld (Color (JStr ''#f5d0c5''))) (0, 0, 0) (0, 0, 0) True,
      meshNode (CapsuleGeometry [0.4, 0.8, 4, 8])
        (createMaterialWorld (Color (JStr ''#f5d0c5''))) (0, - 1.4, 0) (0, 0, 0) True,
      meshNode (SphereGeometry [0.08, 8, 6])
        (createMaterialWorld (Color (JStr ''#2d5a27''))) (- 0.3, 0.15, 0.85) (0, 0, 0) False,
      meshNode (SphereGeometry [0.08, 8, 6])
        (createMaterialWorld (Color (JStr ''#2d5a27''))) (0.3, 0.15, 0.85) (0, 0, 0) False] \<and>
   children (hd (children (playerAvatarGroup sampleConfig newGroup))) = []"
proof -
  have d: "headShape defaultConfig \<noteq> JStr ''square''"
    by (simp add: defaultConfig_def)
  have s: "headShape sampleConfig = JStr ''square''"
    by (simp add: sampleConfig_def)
  note p = front_ends_differ[of defaultConfig newGroup newGroup]
    and q = front_ends_differ[of sampleConfig newGroup newGroup]
  note tl6 = conjunct2[THEN conjunct2, THEN conjunct2, THEN conjunct2, THEN conjunct2,
      THEN conjunct2, THEN conjunct2]
  have same: "objKind (hd (children (playerAvatarGroup defaultConfig newGroup))) =
      objKind (hd (children (buildAvatar defaultConfig newGroup)))"
    using p[THEN tl6, THEN conjunct1, THEN mp, OF d] .
  have square: "objKind (hd (children (playerAvatarGroup sampleConfig newGroup))) =
     Mesh (BoxGeometry [1.6, 1.8, 1.5, 2, 2, 2]) (createMaterial (Color (headColor sampleConfig)) None) \<and>
   objKind (hd (children (buildAvatar sampleConfig newGroup))) =
     Mesh (SetPositions (BoxGeometry [1.6, 1.8, 1.5, 2, 2, 2]) (map inflateVertex squareBoxPositions))
       (createMaterial (Color (headColor sampleConfig)) None)"
    using q[THEN tl6, THEN conjunct2, THEN mp, OF s] .
  have ch: "children (playerAvatarGroup sampleConfig newGroup) =
     [meshNode (BoxGeometry [1.6, 1.8, 1.5, 2, 2, 2])
        (createMaterialWorld (Color (JStr ''#f5d0c5''))) (0, 0, 0) (0, 0, 0) True,
      meshNode (CapsuleGeometry [0.4, 0.8, 4, 8])
        (createMaterialWorld (Color (JStr ''#f5d0c5''))) (0, - 1.4, 0) (0, 0, 0) True,
      meshNode (SphereGeometry [0.08, 8, 6])
        (createMaterialWorld (Color (JStr ''#2d5a27''))) (- 0.3, 0.15, 0.85) (0, 0, 0) False,
      meshNode (SphereGeometry [0.08, 8, 6])
        (createMaterialWorld (Color (JStr ''#2d5a27''))) (0.3, 0.15, 0.85) (0, 0, 0) False]"
    by (subst q[THEN conjunct2, THEN conjunct1]) (simp add: sampleConfig_def)
  have "hd (children (playerAvatarGroup sampleConfig newGroup)) \<in>
      set (children (playerAvatarGroup sampleConfig newGroup))"
    by (simp add: ch)
  then have leaf: "children (hd (children (playerAvatarGroup sampleConfig newGroup))) = []"
    using q[THEN conjunct2, THEN conjunct2, THEN conjunct1, THEN bspec] by blast
  show ?thesis
    using d same s square ch leaf by (intro conjI) simp_all
qed

section \<open>Properties of the persistence gateway\<close>

lemma loggedInApp_simps:
  "isLoggedIn loggedInApp" "currentConfig loggedInApp = sampleConfig"
  by (simp_all add: loggedInApp_def)

lemma requireRepo_base:
  "requireRepo putFailsEnv = Inr ''did:plc:alice''"
  "requireRepo getFailsEnv = Inr ''did:plc:alice''"
  "requireRepo noRecordEnv = Inr ''did:plc:alice''"
  "requireRepo baseEnv = Inr ''did:plc:alice''"
  by (simp_all add: requireRepo_def putFailsEnv_def getFailsEnv_def noRecordEnv_def baseEnv_def)

lemma not_found_samples:
  "\<not> isNotFound networkFailure" "\<not> isNotFound sentinelFailure" "isNotFound recordNotFound"
  by (simp_all add: isNotFound_def networkFailure_def sentinelFailure_def recordNotFound_def)

text \<open>
  C6, on the failing input. The update request fails with a network error, which the
  loader's own test does not take for a missing record; save nevertheless issues the
  create request, and reports success when that one goes through.
\<close>

theorem save_creates_after_any_update_failure:
  "putRecordResponse putFailsEnv = Inl networkFailure \<and>
   \<not> isNotFound networkFailure \<and>
   saveAvatarToBluesky putFailsEnv loggedInApp =
     (\<lparr> success = True, error = None \<rparr>,
      [PutRecord ''did:plc:alice'' ''xyz.bskatar.avatar'' ''self''
         (toRecord ''2024-01-01T00:00:00.000Z'' sampleConfig),
       CreateRecord ''did:plc:alice'' ''xyz.bskatar.avatar'' ''self''
         (toRecord ''2024-01-01T00:00:00.250Z'' sampleConfig),
       Notification ''Avatar saved to Bluesky!''])"
proof -
  have env: "putRecordResponse putFailsEnv = Inl networkFailure"
    "createRecordResponse putFailsEnv = Inr ()"
    "nowPut putFailsEnv = ''2024-01-01T00:00:00.000Z''"
    "nowCreate putFailsEnv = ''2024-01-01T00:00:00.250Z''"
    by (simp_all add: putFailsEnv_def baseEnv_def)
  show ?thesis
    by (simp add: saveAvatarToBluesky_def loggedInApp_simps requireRepo_base not_found_samples
        env AVATAR_COLLECTION_def AVATAR_RKEY_def Let_def)
qed


end
